theory Spec2Isabelle
  imports Complex_Main "HOL-Library.Word"
begin

unbundle bit_operations_syntax

section \<open>Hera voice engine: the plugin wrapper of \<open>hera_plugin.cpp\<close>\<close>

text \<open>
  The development embeds the control logic of the plugin wrapper: the parameter store
  and its distribution (\<open>apply_param\<close>, \<open>apply_preset\<close>, \<open>v2_set_param\<close>,
  \<open>v2_get_param\<close>), the voice scheduler (\<open>find_free_voice\<close>, \<open>note_on\<close>,
  \<open>note_off\<close>, \<open>all_notes_off\<close>), MIDI dispatch (\<open>v2_on_midi\<close>) and the
  modulation arithmetic of the block renderer (\<open>v2_render_block\<close>, \<open>render_voice\<close>).

  Conventions. A C \<open>float\<close> is a \<open>real\<close>: the arithmetic is the source's, rounding is
  not modelled. A C \<open>int\<close> is an \<open>int\<close>; the values that occur (note numbers, indices,
  14-bit bend values) are far from the 32-bit limits. A \<open>uint8_t\<close> is an \<open>8 word\<close>.
  A fixed-size C array is a list; a \<open>for\<close> loop over its indices is a traversal of
  \<open>[0..<N]\<close>. The generated DSP blocks (oscillator, filter, amplifier, high-pass,
  chorus) are objects whose setters store a value; their signal processing is not
  part of the model.
\<close>

subsection \<open>Constants\<close>

definition MAX_VOICES :: nat where "MAX_VOICES = 6"
definition MAX_PRESETS :: nat where "MAX_PRESETS = 128"
definition MAX_BLOCK_SIZE :: nat where "MAX_BLOCK_SIZE = 256"

text \<open>The parameter indices, in the order of the source's anonymous enum.\<close>

abbreviation (input) kHeraParamVCA :: int where "kHeraParamVCA \<equiv> 0"
abbreviation (input) kHeraParamVCAType :: int where "kHeraParamVCAType \<equiv> 1"
abbreviation (input) kHeraParamPWMDepth :: int where "kHeraParamPWMDepth \<equiv> 2"
abbreviation (input) kHeraParamPWMMod :: int where "kHeraParamPWMMod \<equiv> 3"
abbreviation (input) kHeraParamSawLevel :: int where "kHeraParamSawLevel \<equiv> 4"
abbreviation (input) kHeraParamPulseLevel :: int where "kHeraParamPulseLevel \<equiv> 5"
abbreviation (input) kHeraParamSubLevel :: int where "kHeraParamSubLevel \<equiv> 6"
abbreviation (input) kHeraParamNoiseLevel :: int where "kHeraParamNoiseLevel \<equiv> 7"
abbreviation (input) kHeraParamPitchRange :: int where "kHeraParamPitchRange \<equiv> 8"
abbreviation (input) kHeraParamPitchModDepth :: int where "kHeraParamPitchModDepth \<equiv> 9"
abbreviation (input) kHeraParamVCFCutoff :: int where "kHeraParamVCFCutoff \<equiv> 10"
abbreviation (input) kHeraParamVCFResonance :: int where "kHeraParamVCFResonance \<equiv> 11"
abbreviation (input) kHeraParamVCFEnvelopeModDepth :: int where "kHeraParamVCFEnvelopeModDepth \<equiv> 12"
abbreviation (input) kHeraParamVCFLFOModDepth :: int where "kHeraParamVCFLFOModDepth \<equiv> 13"
abbreviation (input) kHeraParamVCFKeyboardModDepth :: int where "kHeraParamVCFKeyboardModDepth \<equiv> 14"
abbreviation (input) kHeraParamVCFBendDepth :: int where "kHeraParamVCFBendDepth \<equiv> 15"
abbreviation (input) kHeraParamAttack :: int where "kHeraParamAttack \<equiv> 16"
abbreviation (input) kHeraParamDecay :: int where "kHeraParamDecay \<equiv> 17"
abbreviation (input) kHeraParamSustain :: int where "kHeraParamSustain \<equiv> 18"
abbreviation (input) kHeraParamRelease :: int where "kHeraParamRelease \<equiv> 19"
abbreviation (input) kHeraParamLFOTriggerMode :: int where "kHeraParamLFOTriggerMode \<equiv> 20"
abbreviation (input) kHeraParamLFORate :: int where "kHeraParamLFORate \<equiv> 21"
abbreviation (input) kHeraParamLFODelay :: int where "kHeraParamLFODelay \<equiv> 22"
abbreviation (input) kHeraParamHPF :: int where "kHeraParamHPF \<equiv> 23"
abbreviation (input) kHeraParamChorusI :: int where "kHeraParamChorusI \<equiv> 24"
abbreviation (input) kHeraParamChorusII :: int where "kHeraParamChorusII \<equiv> 25"
abbreviation (input) kHeraNumParameters :: int where "kHeraNumParameters \<equiv> 26"

abbreviation (input) kHeraVCATypeEnvelope :: int where "kHeraVCATypeEnvelope \<equiv> 0"
abbreviation (input) kHeraVCATypeGate :: int where "kHeraVCATypeGate \<equiv> 1"
abbreviation (input) kHeraPWMManual :: int where "kHeraPWMManual \<equiv> 0"
abbreviation (input) kHeraPWMLFO :: int where "kHeraPWMLFO \<equiv> 1"
abbreviation (input) kHeraPWMEnvelope :: int where "kHeraPWMEnvelope \<equiv> 2"
abbreviation (input) kHeraLFOManual :: int where "kHeraLFOManual \<equiv> 0"
abbreviation (input) kHeraLFOAuto :: int where "kHeraLFOAuto \<equiv> 1"

text \<open>The C conversion \<open>(int)value\<close> of a float: truncation toward zero.\<close>

definition c_int :: "real \<Rightarrow> int" where
  "c_int x = (if 0 \<le> x then \<lfloor>x\<rfloor> else \<lceil>x\<rceil>)"

subsection \<open>Collaborators that are not among the sources\<close>

text \<open>
  Modelled from the spec: \<open>HeraEnvelope\<close> (\<open>Engine/HeraEnvelope.h\<close> is missing). The
  spec gives the stages Idle, Attack, Decay, Sustain, Release; \<open>noteOn\<close> restarts at
  Attack from any stage; \<open>noteOff\<close> takes Attack, Decay and Sustain to Release;
  \<open>shutdown\<close> is the immediate transition to Idle; \<open>isActive\<close> holds when the stage
  is not Idle and \<open>isReleased\<close> only in Release or Idle. \<open>reset\<close>, which the wrapper
  calls when it reclaims a voice, returns the envelope to Idle. The output level is a
  continuous quantity that no operation of the wrapper reads; it is left out. The four
  slider values are stored as the setters receive them.
\<close>

datatype env_stage = Idle | Attack | Decay | Sustain | Release

record HeraEnvelope =
  stage :: env_stage
  env_attack :: real
  env_decay :: real
  env_sustain :: real
  env_release :: real

definition env_noteOn :: "HeraEnvelope \<Rightarrow> HeraEnvelope" where
  "env_noteOn e = e\<lparr>stage := Attack\<rparr>"

definition env_noteOff :: "HeraEnvelope \<Rightarrow> HeraEnvelope" where
  "env_noteOff e =
     (if stage e = Attack \<or> stage e = Decay \<or> stage e = Sustain
      then e\<lparr>stage := Release\<rparr> else e)"

definition env_shutdown :: "HeraEnvelope \<Rightarrow> HeraEnvelope" where
  "env_shutdown e = e\<lparr>stage := Idle\<rparr>"

definition env_reset :: "HeraEnvelope \<Rightarrow> HeraEnvelope" where
  "env_reset e = e\<lparr>stage := Idle\<rparr>"

definition env_isActive :: "HeraEnvelope \<Rightarrow> bool" where
  "env_isActive e = (stage e \<noteq> Idle)"

definition env_isReleased :: "HeraEnvelope \<Rightarrow> bool" where
  "env_isReleased e = (stage e = Release \<or> stage e = Idle)"

text \<open>
  Modelled from the spec: \<open>OnePoleSmoothValue\<close> (\<open>Engine/SmoothValue.h\<close> is missing),
  the single-pole smoother of a stepped control value. The wrapper only sets its
  target, or its current value and target together, and draws successive values with
  \<open>getNextValue\<close>; the latter is a parameter of the loops that call it.
\<close>

record OnePoleSmoothValue =
  sm_current :: real
  sm_target :: real

definition setTargetValue :: "real \<Rightarrow> OnePoleSmoothValue \<Rightarrow> OnePoleSmoothValue" where
  "setTargetValue v s = s\<lparr>sm_target := v\<rparr>"

definition setCurrentAndTargetValue :: "real \<Rightarrow> OnePoleSmoothValue \<Rightarrow> OnePoleSmoothValue" where
  "setCurrentAndTargetValue v s = s\<lparr>sm_current := v, sm_target := v\<rparr>"

definition getTargetValue :: "OnePoleSmoothValue \<Rightarrow> real" where
  "getTargetValue s = sm_target s"

text \<open>
  The oscillator block \<open>HeraDCO\<close> as the wrapper drives it: a frequency and four
  waveform levels, each written by its setter.
\<close>

record HeraDCO =
  dco_frequency :: real
  dco_sawLevel :: real
  dco_pulseLevel :: real
  dco_subLevel :: real
  dco_noiseLevel :: real

text \<open>
  The shared \<open>HeraLFOWithEnvelope\<close> is missing from the sources. The model keeps the
  sequence of calls the wrapper makes on it: a trigger is a \<open>LfoNoteOn\<close> entry, the
  release at the last held note a \<open>LfoNoteOff\<close> entry. The rate and delay entries
  carry the slider value that the wrapper maps through its curve tables before the
  call.
\<close>

datatype lfo_call =
    LfoNoteOn
  | LfoNoteOff
  | LfoShutdown
  | LfoSetFrequency real
  | LfoSetDelayAttack real

subsection \<open>Voice, preset and instance\<close>

text \<open>
  The records follow the source's structs. The voice's field \<open>note\<close> is \<open>note_num\<close>
  here, its \<open>vcaType\<close> and \<open>pwmMod\<close> are \<open>v_vcaType\<close> and \<open>v_pwmMod\<close> (the
  instance has a \<open>vcaType\<close> of its own), and the fields of a preset are \<open>p_name\<close> and
  \<open>p_values\<close>. The filter state of a voice and the instance's module directory, which
  no operation below reads, are left out; the shared LFO is its call sequence \<open>lfo\<close>.
\<close>

record HeraVoiceState =
  active :: bool
  note_num :: int
  frequency :: real
  velocity :: real
  pitchBendFactor :: real
  dco :: HeraDCO
  normalEnvelope :: HeraEnvelope
  gateEnvelope :: HeraEnvelope
  smoothPWMDepth :: OnePoleSmoothValue
  v_vcaType :: int
  v_pwmMod :: int

definition getCurrentEnvelope :: "HeraVoiceState \<Rightarrow> HeraEnvelope" where
  "getCurrentEnvelope v =
     (if v_vcaType v = kHeraVCATypeEnvelope then normalEnvelope v else gateEnvelope v)"

text \<open>
  \<open>getCurrentEnvelope\<close> returns a reference; \<open>on_current_envelope f\<close> is the call of
  the method \<open>f\<close> through that reference.
\<close>

definition on_current_envelope ::
  "(HeraEnvelope \<Rightarrow> HeraEnvelope) \<Rightarrow> HeraVoiceState \<Rightarrow> HeraVoiceState" where
  "on_current_envelope f v =
     (if v_vcaType v = kHeraVCATypeEnvelope
      then v\<lparr>normalEnvelope := f (normalEnvelope v)\<rparr>
      else v\<lparr>gateEnvelope := f (gateEnvelope v)\<rparr>)"

definition isReleased :: "HeraVoiceState \<Rightarrow> bool" where
  "isReleased v =
     (if v_vcaType v = kHeraVCATypeEnvelope
      then env_isReleased (normalEnvelope v) else env_isReleased (gateEnvelope v))"

record HeraPreset =
  p_name :: string
  p_values :: "real list"

record hera_instance =
  params :: "real list"
  voices :: "HeraVoiceState list"
  lfo :: "lfo_call list"
  hpFilter_amount :: real
  vca_amount :: real
  chorus_I :: real
  chorus_II :: real
  smoothPitchModDepth :: OnePoleSmoothValue
  smoothCutoff :: OnePoleSmoothValue
  smoothResonance :: OnePoleSmoothValue
  smoothVCFEnvModDepth :: OnePoleSmoothValue
  smoothVCFLFOModDepth :: OnePoleSmoothValue
  smoothVCFKeyboardModDepth :: OnePoleSmoothValue
  smoothVCFBendDepth :: OnePoleSmoothValue
  pitchFactor :: real
  vcaType :: int
  lfoMode :: int
  pitchBendSemitones :: real
  presets :: "HeraPreset list"
  preset_count :: int
  current_preset :: int
  preset_name :: string
  octave_transpose :: int
  output_gain :: real
  volume :: real

subsection \<open>MIDI note to frequency\<close>

definition midi_to_freq :: "int \<Rightarrow> real" where
  "midi_to_freq n = 440 * 2 powr (real_of_int (n - 69) / 12)"

subsection \<open>Voice management\<close>

text \<open>
  A loop over the pool that returns at its first hit is \<open>find\<close> on the index list; a
  loop that writes every slot is \<open>each_voice\<close>.
\<close>

definition each_voice ::
  "(HeraVoiceState \<Rightarrow> HeraVoiceState) \<Rightarrow> HeraVoiceState list \<Rightarrow> HeraVoiceState list" where
  "each_voice f vs = fold (\<lambda>i ws. ws[i := f (ws ! i)]) [0..<MAX_VOICES] vs"

definition has_unreleased_voices :: "hera_instance \<Rightarrow> bool" where
  "has_unreleased_voices inst =
     list_ex (\<lambda>i. active (voices inst ! i) \<and> \<not> isReleased (voices inst ! i)) [0..<MAX_VOICES]"

definition find_free_voice :: "hera_instance \<Rightarrow> nat" where
  "find_free_voice inst =
     (case find (\<lambda>i. \<not> active (voices inst ! i)) [0..<MAX_VOICES] of
        Some i \<Rightarrow> i
      | None \<Rightarrow>
         (case find (\<lambda>i. isReleased (voices inst ! i)) [0..<MAX_VOICES] of
            Some i \<Rightarrow> i
          | None \<Rightarrow> 0))"

definition note_on :: "hera_instance \<Rightarrow> int \<Rightarrow> real \<Rightarrow> hera_instance" where
  "note_on inst n vel =
     (let vi = find_free_voice inst;
          voice1 = (voices inst ! vi)
            \<lparr>active := True, note_num := n, frequency := midi_to_freq n,
             velocity := vel, v_vcaType := vcaType inst\<rparr>;
          inst1 = inst\<lparr>voices := (voices inst)[vi := voice1]\<rparr>;
          inst2 = (if lfoMode inst1 = kHeraLFOAuto \<and> \<not> has_unreleased_voices inst1
                   then inst1\<lparr>lfo := lfo inst1 @ [LfoNoteOn]\<rparr> else inst1);
          voice2 = on_current_envelope env_noteOn voice1;
          voice3 = voice2\<lparr>dco := (dco voice2)\<lparr>dco_frequency := frequency voice2\<rparr>\<rparr>;
          voice4 = voice3\<lparr>smoothPWMDepth :=
                     setCurrentAndTargetValue (getTargetValue (smoothPWMDepth voice3))
                       (smoothPWMDepth voice3)\<rparr>
      in inst2\<lparr>voices := (voices inst2)[vi := voice4]\<rparr>)"

definition note_off_match :: "hera_instance \<Rightarrow> int \<Rightarrow> nat \<Rightarrow> bool" where
  "note_off_match inst n i =
     (active (voices inst ! i) \<and> note_num (voices inst ! i) = n
      \<and> \<not> isReleased (voices inst ! i))"

definition note_off :: "hera_instance \<Rightarrow> int \<Rightarrow> hera_instance" where
  "note_off inst n =
     (case find (note_off_match inst n) [0..<MAX_VOICES] of
        None \<Rightarrow> inst
      | Some i \<Rightarrow>
         (let inst1 = inst\<lparr>voices :=
                        (voices inst)[i := on_current_envelope env_noteOff (voices inst ! i)]\<rparr>
          in if lfoMode inst1 = kHeraLFOAuto \<and> \<not> has_unreleased_voices inst1
             then inst1\<lparr>lfo := lfo inst1 @ [LfoNoteOff]\<rparr> else inst1))"

definition all_notes_off_voice :: "HeraVoiceState \<Rightarrow> HeraVoiceState" where
  "all_notes_off_voice v =
     (if active v
      then (on_current_envelope env_shutdown v)\<lparr>active := False, note_num := - 1\<rparr>
      else v)"

definition all_notes_off :: "hera_instance \<Rightarrow> hera_instance" where
  "all_notes_off inst = inst\<lparr>voices := each_voice all_notes_off_voice (voices inst)\<rparr>"

subsection \<open>Parameter catalog and defaults\<close>

definition g_param_defaults :: "real list" where
  "g_param_defaults =
     [0.5, 0, 0.5, 0, 1, 0, 0, 0, 1, 0, 0.5, 0, 0, 0, 0, 0, 0, 0, 0, 0, 1, 0, 0, 0, 0, 0]"

datatype param_type = PARAM_TYPE_FLOAT | PARAM_TYPE_INT

record param_def =
  pd_key :: string
  pd_name :: string
  pd_type :: param_type
  pd_index :: int
  min_val :: real
  max_val :: real

definition pdef ::
  "string \<Rightarrow> string \<Rightarrow> param_type \<Rightarrow> int \<Rightarrow> real \<Rightarrow> real \<Rightarrow> param_def" where
  "pdef k n t i lo hi =
     \<lparr>pd_key = k, pd_name = n, pd_type = t, pd_index = i, min_val = lo, max_val = hi\<rparr>"

definition g_shadow_params :: "param_def list" where
  "g_shadow_params =
     [pdef ''saw_level'' ''Saw Level'' PARAM_TYPE_FLOAT kHeraParamSawLevel 0 1,
      pdef ''pulse_level'' ''Pulse Level'' PARAM_TYPE_FLOAT kHeraParamPulseLevel 0 1,
      pdef ''sub_level'' ''Sub Level'' PARAM_TYPE_FLOAT kHeraParamSubLevel 0 1,
      pdef ''noise_level'' ''Noise Level'' PARAM_TYPE_FLOAT kHeraParamNoiseLevel 0 1,
      pdef ''pwm_depth'' ''PWM Depth'' PARAM_TYPE_FLOAT kHeraParamPWMDepth 0 1,
      pdef ''pwm_mod'' ''PWM Mod'' PARAM_TYPE_INT kHeraParamPWMMod 0 2,
      pdef ''pitch_range'' ''Range'' PARAM_TYPE_INT kHeraParamPitchRange 0 2,
      pdef ''pitch_mod'' ''Pitch Mod'' PARAM_TYPE_FLOAT kHeraParamPitchModDepth 0 1,
      pdef ''vcf_cutoff'' ''VCF Cutoff'' PARAM_TYPE_FLOAT kHeraParamVCFCutoff 0 1,
      pdef ''vcf_resonance'' ''VCF Reso'' PARAM_TYPE_FLOAT kHeraParamVCFResonance 0 1,
      pdef ''vcf_env'' ''VCF Env'' PARAM_TYPE_FLOAT kHeraParamVCFEnvelopeModDepth (- 1) 1,
      pdef ''vcf_lfo'' ''VCF LFO'' PARAM_TYPE_FLOAT kHeraParamVCFLFOModDepth 0 1,
      pdef ''vcf_key'' ''VCF Key'' PARAM_TYPE_FLOAT kHeraParamVCFKeyboardModDepth 0 1,
      pdef ''vcf_bend'' ''VCF Bend'' PARAM_TYPE_FLOAT kHeraParamVCFBendDepth 0 1,
      pdef ''vca_depth'' ''VCA Depth'' PARAM_TYPE_FLOAT kHeraParamVCA 0 1,
      pdef ''vca_type'' ''VCA Type'' PARAM_TYPE_INT kHeraParamVCAType 0 1,
      pdef ''attack'' ''Attack'' PARAM_TYPE_FLOAT kHeraParamAttack 0 1,
      pdef ''decay'' ''Decay'' PARAM_TYPE_FLOAT kHeraParamDecay 0 1,
      pdef ''sustain'' ''Sustain'' PARAM_TYPE_FLOAT kHeraParamSustain 0 1,
      pdef ''release'' ''Release'' PARAM_TYPE_FLOAT kHeraParamRelease 0 1,
      pdef ''lfo_rate'' ''LFO Rate'' PARAM_TYPE_FLOAT kHeraParamLFORate 0 1,
      pdef ''lfo_delay'' ''LFO Delay'' PARAM_TYPE_FLOAT kHeraParamLFODelay 0 1,
      pdef ''lfo_trigger'' ''LFO Trigger'' PARAM_TYPE_INT kHeraParamLFOTriggerMode 0 1,
      pdef ''hpf'' ''HPF'' PARAM_TYPE_FLOAT kHeraParamHPF 0 1,
      pdef ''chorus_i'' ''Chorus I'' PARAM_TYPE_INT kHeraParamChorusI 0 1,
      pdef ''chorus_ii'' ''Chorus II'' PARAM_TYPE_INT kHeraParamChorusII 0 1]"

subsection \<open>Applying a parameter value to the engine\<close>

definition on_normal_envelope ::
  "(HeraEnvelope \<Rightarrow> HeraEnvelope) \<Rightarrow> HeraVoiceState \<Rightarrow> HeraVoiceState" where
  "on_normal_envelope f vo = vo\<lparr>normalEnvelope := f (normalEnvelope vo)\<rparr>"

definition on_dco :: "(HeraDCO \<Rightarrow> HeraDCO) \<Rightarrow> HeraVoiceState \<Rightarrow> HeraVoiceState" where
  "on_dco f vo = vo\<lparr>dco := f (dco vo)\<rparr>"

definition on_voices ::
  "(HeraVoiceState \<Rightarrow> HeraVoiceState) \<Rightarrow> hera_instance \<Rightarrow> hera_instance" where
  "on_voices f inst = inst\<lparr>voices := each_voice f (voices inst)\<rparr>"

definition apply_param :: "hera_instance \<Rightarrow> int \<Rightarrow> real \<Rightarrow> hera_instance" where
  "apply_param inst0 param_idx v =
     (if param_idx < 0 \<or> param_idx \<ge> kHeraNumParameters then inst0
      else
        let inst = inst0\<lparr>params := (params inst0)[nat param_idx := v]\<rparr> in
        if param_idx = kHeraParamVCA then inst\<lparr>vca_amount := v\<rparr>
        else if param_idx = kHeraParamVCAType then
          on_voices (\<lambda>vo. vo\<lparr>v_vcaType := c_int v\<rparr>) (inst\<lparr>vcaType := c_int v\<rparr>)
        else if param_idx = kHeraParamPWMDepth then
          on_voices (\<lambda>vo. vo\<lparr>smoothPWMDepth := setTargetValue v (smoothPWMDepth vo)\<rparr>) inst
        else if param_idx = kHeraParamPWMMod then
          on_voices (\<lambda>vo. vo\<lparr>v_pwmMod := c_int v\<rparr>) inst
        else if param_idx = kHeraParamSawLevel then
          on_voices (on_dco (\<lambda>d. d\<lparr>dco_sawLevel := v\<rparr>)) inst
        else if param_idx = kHeraParamPulseLevel then
          on_voices (on_dco (\<lambda>d. d\<lparr>dco_pulseLevel := v\<rparr>)) inst
        else if param_idx = kHeraParamSubLevel then
          on_voices (on_dco (\<lambda>d. d\<lparr>dco_subLevel := v\<rparr>)) inst
        else if param_idx = kHeraParamNoiseLevel then
          on_voices (on_dco (\<lambda>d. d\<lparr>dco_noiseLevel := v\<rparr>)) inst
        else if param_idx = kHeraParamPitchRange then
          inst\<lparr>pitchFactor := [0.5, 1, 2] ! nat (max 0 (min 2 (c_int v)))\<rparr>
        else if param_idx = kHeraParamPitchModDepth then
          inst\<lparr>smoothPitchModDepth := setTargetValue v (smoothPitchModDepth inst)\<rparr>
        else if param_idx = kHeraParamVCFCutoff then
          inst\<lparr>smoothCutoff := setTargetValue v (smoothCutoff inst)\<rparr>
        else if param_idx = kHeraParamVCFResonance then
          inst\<lparr>smoothResonance := setTargetValue v (smoothResonance inst)\<rparr>
        else if param_idx = kHeraParamVCFEnvelopeModDepth then
          inst\<lparr>smoothVCFEnvModDepth := setTargetValue v (smoothVCFEnvModDepth inst)\<rparr>
        else if param_idx = kHeraParamVCFLFOModDepth then
          inst\<lparr>smoothVCFLFOModDepth := setTargetValue v (smoothVCFLFOModDepth inst)\<rparr>
        else if param_idx = kHeraParamVCFKeyboardModDepth then
          inst\<lparr>smoothVCFKeyboardModDepth := setTargetValue v (smoothVCFKeyboardModDepth inst)\<rparr>
        else if param_idx = kHeraParamVCFBendDepth then
          inst\<lparr>smoothVCFBendDepth := setTargetValue v (smoothVCFBendDepth inst)\<rparr>
        else if param_idx = kHeraParamAttack then
          on_voices (on_normal_envelope (\<lambda>e. e\<lparr>env_attack := v\<rparr>)) inst
        else if param_idx = kHeraParamDecay then
          on_voices (on_normal_envelope (\<lambda>e. e\<lparr>env_decay := v\<rparr>)) inst
        else if param_idx = kHeraParamSustain then
          on_voices (on_normal_envelope (\<lambda>e. e\<lparr>env_sustain := v\<rparr>)) inst
        else if param_idx = kHeraParamRelease then
          on_voices (on_normal_envelope (\<lambda>e. e\<lparr>env_release := v\<rparr>)) inst
        else if param_idx = kHeraParamLFOTriggerMode then
          (if lfoMode inst \<noteq> c_int v
           then inst\<lparr>lfo := lfo inst @ [LfoShutdown], lfoMode := c_int v\<rparr> else inst)
        else if param_idx = kHeraParamLFORate then
          inst\<lparr>lfo := lfo inst @ [LfoSetFrequency v]\<rparr>
        else if param_idx = kHeraParamLFODelay then
          inst\<lparr>lfo := lfo inst @ [LfoSetDelayAttack v]\<rparr>
        else if param_idx = kHeraParamHPF then inst\<lparr>hpFilter_amount := v\<rparr>
        else if param_idx = kHeraParamChorusI then inst\<lparr>chorus_I := v\<rparr>
        else inst\<lparr>chorus_II := v\<rparr>)"

subsection \<open>Presets\<close>

text \<open>
  Preset files are read and parsed outside the model. A loaded preset carries its name
  and one value per parameter index (the defaults where the file names no value).
  Its values are stored as the file gives them.
\<close>

definition apply_preset :: "hera_instance \<Rightarrow> int \<Rightarrow> hera_instance" where
  "apply_preset inst preset_idx =
     (if preset_idx < 0 \<or> preset_idx \<ge> preset_count inst then inst
      else
        let p = presets inst ! nat preset_idx;
            inst1 = inst\<lparr>current_preset := preset_idx, preset_name := take 63 (p_name p)\<rparr>
        in fold (\<lambda>i s. apply_param s (int i) (p_values p ! i))
             [0..<nat kHeraNumParameters] inst1)"

subsection \<open>Instance creation\<close>

text \<open>
  \<open>new_voice\<close> is the constructor \<open>HeraVoiceState()\<close>. The oscillator's own initial
  values come from the generated block and are written as 0; the creation loop below
  overwrites the four levels, and \<open>note_on\<close> sets the frequency before the voice
  sounds. \<open>new_instance\<close> is the instance after the scalar initialisations of
  \<open>v2_create_instance\<close> and before its default-parameter loop.
\<close>

definition new_envelope :: "real \<Rightarrow> real \<Rightarrow> real \<Rightarrow> real \<Rightarrow> HeraEnvelope" where
  "new_envelope a d s r =
     \<lparr>stage = Idle, env_attack = a, env_decay = d, env_sustain = s, env_release = r\<rparr>"

definition new_smooth :: "real \<Rightarrow> OnePoleSmoothValue" where
  "new_smooth v = \<lparr>sm_current = v, sm_target = v\<rparr>"

definition new_voice :: HeraVoiceState where
  "new_voice =
     \<lparr>active = False, note_num = - 1, frequency = 440, velocity = 0, pitchBendFactor = 1,
      dco = \<lparr>dco_frequency = 0, dco_sawLevel = 0, dco_pulseLevel = 0, dco_subLevel = 0,
             dco_noiseLevel = 0\<rparr>,
      normalEnvelope = new_envelope 0 0 0 0,
      gateEnvelope = new_envelope 0.00247 0.0057 0.98 0.0057,
      smoothPWMDepth = new_smooth 0,
      v_vcaType = kHeraVCATypeEnvelope, v_pwmMod = kHeraPWMManual\<rparr>"

definition new_instance :: hera_instance where
  "new_instance =
     \<lparr>params = replicate (nat kHeraNumParameters) 0,
      voices = replicate MAX_VOICES new_voice,
      lfo = [],
      hpFilter_amount = 0, vca_amount = 0, chorus_I = 0, chorus_II = 0,
      smoothPitchModDepth = new_smooth 0,
      smoothCutoff = new_smooth 1,
      smoothResonance = new_smooth 0,
      smoothVCFEnvModDepth = new_smooth 0,
      smoothVCFLFOModDepth = new_smooth 0,
      smoothVCFKeyboardModDepth = new_smooth 0,
      smoothVCFBendDepth = new_smooth 0,
      pitchFactor = 1, vcaType = kHeraVCATypeEnvelope, lfoMode = kHeraLFOAuto,
      pitchBendSemitones = 0,
      presets = [], preset_count = 0, current_preset = 0, preset_name = ''Init'',
      octave_transpose = 0, output_gain = 1, volume = 0.8\<rparr>"

text \<open>
  \<open>load_presets\<close> reads at most \<open>MAX_PRESETS\<close> files; \<open>loaded\<close> is the list of the
  presets it parsed, in order.
\<close>

definition load_presets :: "HeraPreset list \<Rightarrow> hera_instance \<Rightarrow> hera_instance" where
  "load_presets loaded inst =
     inst\<lparr>presets := take MAX_PRESETS loaded,
          preset_count := int (length (take MAX_PRESETS loaded))\<rparr>"

definition v2_create_instance :: "HeraPreset list \<Rightarrow> hera_instance" where
  "v2_create_instance loaded =
     (let inst1 = fold (\<lambda>i s. apply_param s (int i) (g_param_defaults ! i))
                    [0..<nat kHeraNumParameters] new_instance;
          inst2 = load_presets loaded inst1
      in if preset_count inst2 > 0
         then apply_preset (inst2\<lparr>current_preset := 0\<rparr>) 0 else inst2)"

subsection \<open>MIDI dispatch\<close>

text \<open>
  The \<open>case 0xE0\<close> block of \<open>v2_on_midi\<close>: the 14-bit bend value is assembled from
  the two data bytes, centred, scaled to semitones, and every active voice's
  oscillator is retuned.
\<close>

definition pitch_bend :: "hera_instance \<Rightarrow> 8 word \<Rightarrow> 8 word \<Rightarrow> hera_instance" where
  "pitch_bend inst data1 data2 =
     (let bend = (push_bit 7 (uint data2) OR uint data1) - 8192;
          inst1 = inst\<lparr>pitchBendSemitones := (real_of_int bend / 8192) * 7\<rparr>;
          bendFactor = 2 powr (pitchBendSemitones inst1 / 12)
      in on_voices
           (\<lambda>vo. if active vo
                 then on_dco (\<lambda>d. d\<lparr>dco_frequency := midi_to_freq (note_num vo) * bendFactor\<rparr>) vo
                 else vo)
           inst1)"

definition transpose_note :: "hera_instance \<Rightarrow> int \<Rightarrow> int" where
  "transpose_note inst n0 =
     (let n1 = n0 + octave_transpose inst * 12;
          n2 = (if n1 < 0 then 0 else n1)
      in if n2 > 127 then 127 else n2)"

text \<open>The message is the byte sequence \<open>msg[0..len-1]\<close>.\<close>

definition v2_on_midi :: "hera_instance \<Rightarrow> 8 word list \<Rightarrow> hera_instance" where
  "v2_on_midi inst msg =
     (if length msg < 2 then inst
      else
        let status = (msg ! 0) AND 0xF0;
            data1 = msg ! 1;
            data2 = (if length msg > 2 then msg ! 2 else 0);
            n = (if status = 0x90 \<or> status = 0x80
                 then transpose_note inst (uint data1) else uint data1)
        in if status = 0x90 then
             (if data2 > 0 then note_on inst n (real_of_int (uint data2) / 127)
              else note_off inst n)
           else if status = 0x80 then note_off inst n
           else if status = 0xB0 then
             (if data1 = 120 \<or> data1 = 123 then all_notes_off inst else inst)
           else if status = 0xE0 then pitch_bend inst data1 data2
           else inst)"

subsection \<open>Setting parameters and restoring state\<close>

text \<open>
  A value arrives as text. The model keeps the text as what the three readers of the
  source make of it: \<open>atoi\<close>, \<open>atof\<close>, and \<open>json_get_number\<close>, which looks for the
  first occurrence of \<open>"key":\<close> and reads the number that follows.
\<close>

record c_text =
  atoi :: int
  atof :: real
  json_numbers :: "(string \<times> real) list"

definition json_get_number :: "c_text \<Rightarrow> string \<Rightarrow> real option" where
  "json_get_number val key = map_of (json_numbers val) key"

definition clamp_param :: "param_def \<Rightarrow> real \<Rightarrow> real" where
  "clamp_param d fval =
     (let f1 = (if fval < min_val d then min_val d else fval)
      in if f1 > max_val d then max_val d else f1)"

definition clamp_octave :: "int \<Rightarrow> int" where
  "clamp_octave t = (let t1 = (if t < - 3 then - 3 else t) in if t1 > 3 then 3 else t1)"

definition restore_state :: "hera_instance \<Rightarrow> c_text \<Rightarrow> hera_instance" where
  "restore_state inst val =
     (let inst1 =
            (case json_get_number val ''preset'' of
               None \<Rightarrow> inst
             | Some fval \<Rightarrow>
                 (let idx = c_int fval
                  in if idx \<ge> 0 \<and> idx < preset_count inst
                     then apply_preset (inst\<lparr>current_preset := idx\<rparr>) idx else inst));
          inst2 =
            (case json_get_number val ''octave_transpose'' of
               None \<Rightarrow> inst1
             | Some fval \<Rightarrow> inst1\<lparr>octave_transpose := clamp_octave (c_int fval)\<rparr>)
      in fold (\<lambda>d s. case json_get_number val (pd_key d) of
                        None \<Rightarrow> s
                      | Some fval \<Rightarrow> apply_param s (pd_index d) (clamp_param d fval))
           g_shadow_params inst2)"

definition set_named_param :: "hera_instance \<Rightarrow> string \<Rightarrow> c_text \<Rightarrow> hera_instance" where
  "set_named_param inst key val =
     (case find (\<lambda>d. pd_key d = key) g_shadow_params of
        None \<Rightarrow> inst
      | Some d \<Rightarrow> apply_param inst (pd_index d) (clamp_param d (atof val)))"

definition v2_set_param :: "hera_instance \<Rightarrow> string \<Rightarrow> c_text \<Rightarrow> hera_instance" where
  "v2_set_param inst key val =
     (if key = ''state'' then restore_state inst val
      else if key = ''preset'' then
        (let idx = atoi val
         in if idx \<ge> 0 \<and> idx < preset_count inst
            then apply_preset ((all_notes_off inst)\<lparr>current_preset := idx\<rparr>) idx else inst)
      else if key = ''volume'' then
        (let v1 = (if atof val < 0 then 0 else atof val)
         in inst\<lparr>volume := (if v1 > 1 then 1 else v1)\<rparr>)
      else if key = ''octave_transpose'' then
        inst\<lparr>octave_transpose := clamp_octave (atoi val)\<rparr>
      else if key = ''all_notes_off'' then all_notes_off inst
      else set_named_param inst key val)"

subsection \<open>State serialization\<close>

text \<open>
  \<open>v2_get_param\<close> with key \<open>state\<close> prints
  \<open>{"preset":%d,"volume":%.4f,"octave_transpose":%d\<close>, then \<open>,"key":%.4f\<close> for every
  entry of \<open>g_shadow_params\<close>, then \<open>}\<close>. The model keeps the printed text as the list
  of its key/number pairs, in the order printed. A number printed with \<open>%.4f\<close> is the
  value rounded to four decimals, to the nearest multiple of \<open>1/10000\<close> and, when the
  value lies exactly half way between two of them, to the one with the even last
  digit (so \<open>1/32 = 0.03125\<close> prints as \<open>0.0312\<close>); one printed with \<open>%d\<close> is the
  integer itself. The caller's buffer is taken to be long enough for the text (the
  source returns \<open>-1\<close> otherwise).
\<close>

definition round_half_even :: "real \<Rightarrow> int" where
  "round_half_even y =
     (let f = \<lfloor>y\<rfloor>; d = y - real_of_int f
      in if d < 1 / 2 then f
         else if d > 1 / 2 then f + 1
         else if even f then f else f + 1)"

definition fmt4 :: "real \<Rightarrow> real" where
  "fmt4 x = real_of_int (round_half_even (x * 10000)) / 10000"

definition serialize_state :: "hera_instance \<Rightarrow> (string \<times> real) list" where
  "serialize_state inst =
     (''preset'', real_of_int (current_preset inst))
     # (''volume'', fmt4 (volume inst))
     # (''octave_transpose'', real_of_int (octave_transpose inst))
     # map (\<lambda>d. (pd_key d, fmt4 (params inst ! nat (pd_index d)))) g_shadow_params"

text \<open>The snapshot as the text handed back to \<open>v2_set_param\<close>; it is not a number.\<close>

definition state_text :: "hera_instance \<Rightarrow> c_text" where
  "state_text inst = \<lparr>atoi = 0, atof = 0, json_numbers = serialize_state inst\<rparr>"

subsection \<open>Block rendering: the modulation buses\<close>

text \<open>
  The scratch buffers of the instance that the modulation arithmetic reads and writes.
  \<open>lfoBuffer\<close> is filled by the shared LFO, \<open>envelopeBuffer\<close> and \<open>gateBuffer\<close> by the
  voice's two envelopes; their contents are inputs here.
\<close>

record hera_buffers =
  lfoBuffer :: "real list"
  detuneBuffer :: "real list"
  envelopeBuffer :: "real list"
  gateBuffer :: "real list"
  cutoffOctavesBuffer :: "real list"
  cutoffBuffer :: "real list"
  resonanceBuffer :: "real list"
  vcfEnvModBuffer :: "real list"
  vcfLFODetuneOctavesBuffer :: "real list"
  vcfKeyboardModBuffer :: "real list"
  vcfBendDepthBuffer :: "real list"

text \<open>
  \<open>getNextValue\<close> of the smoother, which is not among the sources, is the parameter
  \<open>gnv\<close>: it yields the next smoothed value and the advanced smoother. \<open>smoothed gnv s i\<close>
  is the value of the \<open>i\<close>-th call on a smoother that starts as \<open>s\<close>.
\<close>

type_synonym next_value = "OnePoleSmoothValue \<Rightarrow> real \<times> OnePoleSmoothValue"

definition smoothed :: "next_value \<Rightarrow> OnePoleSmoothValue \<Rightarrow> nat \<Rightarrow> real" where
  "smoothed gnv s i = fst (gnv (((\<lambda>t. snd (gnv t)) ^^ i) s))"

text \<open>The detune loop of \<open>v2_render_block\<close>.\<close>

definition detune_step ::
  "next_value \<Rightarrow> nat \<Rightarrow> hera_instance \<times> hera_buffers \<Rightarrow> hera_instance \<times> hera_buffers" where
  "detune_step gnv i st =
     (let inst = fst st; b = snd st;
          detuneFactor = pitchFactor inst;
          nv = gnv (smoothPitchModDepth inst)
      in (inst\<lparr>smoothPitchModDepth := snd nv\<rparr>,
          b\<lparr>detuneBuffer := (detuneBuffer b)
               [i := detuneFactor * 2 powr (lfoBuffer b ! i * 0.25 * fst nv)]\<rparr>))"

definition process_detune ::
  "next_value \<Rightarrow> nat \<Rightarrow> hera_instance \<times> hera_buffers \<Rightarrow> hera_instance \<times> hera_buffers" where
  "process_detune gnv frames st = fold (detune_step gnv) [0..<frames] st"

text \<open>The cutoff and resonance smoothing loop of \<open>v2_render_block\<close>.\<close>

definition cutoff_step ::
  "next_value \<Rightarrow> nat \<Rightarrow> hera_instance \<times> hera_buffers \<Rightarrow> hera_instance \<times> hera_buffers" where
  "cutoff_step gnv i st =
     (let inst = fst st; b = snd st;
          c = gnv (smoothCutoff inst);
          r = gnv (smoothResonance inst);
          cutoffDetuneOctaves = fst c * (200 / 12);
          resonanceDetuneOctaves = fst r * 0.5;
          e = gnv (smoothVCFEnvModDepth inst);
          l = gnv (smoothVCFLFOModDepth inst);
          k = gnv (smoothVCFKeyboardModDepth inst);
          d = gnv (smoothVCFBendDepth inst)
      in (inst\<lparr>smoothCutoff := snd c, smoothResonance := snd r,
               smoothVCFEnvModDepth := snd e, smoothVCFLFOModDepth := snd l,
               smoothVCFKeyboardModDepth := snd k, smoothVCFBendDepth := snd d\<rparr>,
          b\<lparr>cutoffOctavesBuffer :=
               (cutoffOctavesBuffer b)[i := cutoffDetuneOctaves + resonanceDetuneOctaves],
            resonanceBuffer := (resonanceBuffer b)[i := fst r],
            vcfEnvModBuffer := (vcfEnvModBuffer b)[i := fst e],
            vcfLFODetuneOctavesBuffer :=
               (vcfLFODetuneOctavesBuffer b)[i := fst l * (lfoBuffer b ! i) * 3],
            vcfKeyboardModBuffer := (vcfKeyboardModBuffer b)[i := fst k],
            vcfBendDepthBuffer := (vcfBendDepthBuffer b)[i := fst d]\<rparr>))"

definition process_cutoff ::
  "next_value \<Rightarrow> nat \<Rightarrow> hera_instance \<times> hera_buffers \<Rightarrow> hera_instance \<times> hera_buffers" where
  "process_cutoff gnv frames st = fold (cutoff_step gnv) [0..<frames] st"

text \<open>
  The head of \<open>v2_render_block\<close>: the frame count is cut to \<open>MAX_BLOCK_SIZE\<close>, the
  LFO fills \<open>lfoBuffer\<close> (its samples \<open>lfoOut\<close> are an input), then the two loops run.
\<close>

definition render_block_buses ::
  "next_value \<Rightarrow> real list \<Rightarrow> nat \<Rightarrow> hera_instance \<times> hera_buffers
     \<Rightarrow> hera_instance \<times> hera_buffers" where
  "render_block_buses gnv lfoOut frames0 st =
     (let frames = (if frames0 > MAX_BLOCK_SIZE then MAX_BLOCK_SIZE else frames0);
          b = snd st;
          b1 = b\<lparr>lfoBuffer := fold (\<lambda>i l. l[i := lfoOut ! i]) [0..<frames] (lfoBuffer b)\<rparr>
      in process_cutoff gnv frames (process_detune gnv frames (fst st, b1)))"

subsection \<open>Block rendering: the filter cutoff of a voice\<close>

text \<open>
  The VCF part of \<open>render_voice\<close>: the loop that fills \<open>cutoffBuffer\<close>. The buffer is
  then handed, as it is, to the filter's \<open>processNextBlock\<close> together with the
  resonance buffer.
\<close>

definition ampEnvelopeIn :: "HeraVoiceState \<Rightarrow> hera_buffers \<Rightarrow> real list" where
  "ampEnvelopeIn voice b =
     (if v_vcaType voice = kHeraVCATypeEnvelope then envelopeBuffer b else gateBuffer b)"

definition voice_cutoff_step ::
  "hera_instance \<Rightarrow> HeraVoiceState \<Rightarrow> nat \<Rightarrow> hera_buffers \<Rightarrow> hera_buffers" where
  "voice_cutoff_step inst voice i b =
     (let filterNoteFactor = real_of_int (note_num voice - 60) * (1 / 12);
          pitchbendFactor = pitchBendSemitones inst * (48 / (12 * 7));
          envDetuneOctaves = vcfEnvModBuffer b ! i * (envelopeBuffer b ! i) * 12;
          lfoDetuneOctaves = vcfLFODetuneOctavesBuffer b ! i * (ampEnvelopeIn voice b ! i);
          keyboardDetuneOctaves = vcfKeyboardModBuffer b ! i * filterNoteFactor;
          filterBendOctaves = vcfBendDepthBuffer b ! i * pitchbendFactor
      in b\<lparr>cutoffBuffer := (cutoffBuffer b)
             [i := 7.8 * 2 powr (cutoffOctavesBuffer b ! i + envDetuneOctaves
                      + lfoDetuneOctaves + keyboardDetuneOctaves + filterBendOctaves)]\<rparr>)"

definition render_voice_cutoff ::
  "hera_instance \<Rightarrow> HeraVoiceState \<Rightarrow> nat \<Rightarrow> hera_buffers \<Rightarrow> hera_buffers" where
  "render_voice_cutoff inst voice numSamples b =
     fold (voice_cutoff_step inst voice) [0..<numSamples] b"

text \<open>The cutoff argument of the call \<open>voice.vcf.processNextBlock\<close>.\<close>

definition vcf_cutoff_input ::
  "hera_instance \<Rightarrow> HeraVoiceState \<Rightarrow> nat \<Rightarrow> hera_buffers \<Rightarrow> real list" where
  "vcf_cutoff_input inst voice numSamples b =
     take numSamples (cutoffBuffer (render_voice_cutoff inst voice numSamples b))"

subsection \<open>Block rendering: the life cycle of a voice\<close>

text \<open>
  The envelope part of \<open>render_voice\<close>. \<open>processNextBlock\<close> of the envelope is not
  among the sources; what it does to the normal and to the gate envelope of the
  voice during this block is given by \<open>pn\<close> and \<open>pg\<close>. After the block a voice whose
  governing envelope is no longer active is reclaimed.
\<close>

definition render_voice :: 
  "(HeraEnvelope \<Rightarrow> HeraEnvelope) \<Rightarrow> (HeraEnvelope \<Rightarrow> HeraEnvelope)
     \<Rightarrow> HeraVoiceState \<Rightarrow> HeraVoiceState" where
  "render_voice pn pg voice =
     (let v1 = voice\<lparr>normalEnvelope := pn (normalEnvelope voice)\<rparr>;
          v2 = (if v_vcaType v1 \<noteq> kHeraVCATypeEnvelope
                then v1\<lparr>gateEnvelope := pg (gateEnvelope v1)\<rparr> else v1)
      in if \<not> env_isActive (getCurrentEnvelope v2)
         then (let v3 = on_current_envelope env_reset v2;
                   v4 = v3\<lparr>gateEnvelope := env_reset (gateEnvelope v3)\<rparr>
               in v4\<lparr>active := False, note_num := - 1\<rparr>)
         else v2)"

definition render_voices ::
  "(nat \<Rightarrow> HeraEnvelope \<Rightarrow> HeraEnvelope) \<Rightarrow> (nat \<Rightarrow> HeraEnvelope \<Rightarrow> HeraEnvelope)
     \<Rightarrow> hera_instance \<Rightarrow> hera_instance" where
  "render_voices pn pg inst =
     fold (\<lambda>v s. if active (voices s ! v)
                  then s\<lparr>voices := (voices s)[v := render_voice (pn v) (pg v) (voices s ! v)]\<rparr>
                  else s)
       [0..<MAX_VOICES] inst"

subsection \<open>Event histories\<close>

datatype event =
    NoteOn int real
  | NoteOff int
  | Render "nat \<Rightarrow> HeraEnvelope \<Rightarrow> HeraEnvelope" "nat \<Rightarrow> HeraEnvelope \<Rightarrow> HeraEnvelope"

fun step :: "hera_instance \<Rightarrow> event \<Rightarrow> hera_instance" where
  "step s (NoteOn n vel) = note_on s n vel"
| "step s (NoteOff n) = note_off s n"
| "step s (Render pn pg) = render_voices pn pg s"

definition run :: "event list \<Rightarrow> hera_instance \<Rightarrow> hera_instance" where
  "run evs s = foldl step s evs"

definition active_voices :: "hera_instance \<Rightarrow> nat" where
  "active_voices s = length (filter active (voices s))"

subsection \<open>Example inputs\<close>

text \<open>
  Concrete pools on which the theorems below are instantiated: a voice holding a note
  in its sustain stage, a voice releasing a note, and an instance with a given pool.
\<close>

definition held_voice :: "int \<Rightarrow> HeraVoiceState" where
  "held_voice n =
     new_voice\<lparr>active := True, note_num := n,
               normalEnvelope := (normalEnvelope new_voice)\<lparr>stage := Sustain\<rparr>\<rparr>"

definition releasing_voice :: "int \<Rightarrow> HeraVoiceState" where
  "releasing_voice n =
     new_voice\<lparr>active := True, note_num := n,
               normalEnvelope := (normalEnvelope new_voice)\<lparr>stage := Release\<rparr>\<rparr>"

definition with_voices :: "HeraVoiceState list \<Rightarrow> hera_instance" where
  "with_voices vs = new_instance\<lparr>voices := vs\<rparr>"

text \<open>
  The slot that \<open>note_on\<close> has written, with all its writes applied: the assignment,
  the restart of the governing envelope, the oscillator frequency and the PWM
  smoother. Lemma \<open>voices_note_on\<close> relates it to \<open>note_on\<close>.
\<close>

definition assigned_voice :: "int \<Rightarrow> int \<Rightarrow> real \<Rightarrow> HeraVoiceState \<Rightarrow> HeraVoiceState" where
  "assigned_voice t n vel v =
     (let v1 = v\<lparr>active := True, note_num := n, frequency := midi_to_freq n,
                 velocity := vel, v_vcaType := t\<rparr>;
          v2 = on_current_envelope env_noteOn v1;
          v3 = v2\<lparr>dco := (dco v2)\<lparr>dco_frequency := frequency v2\<rparr>\<rparr>
      in v3\<lparr>smoothPWMDepth :=
              setCurrentAndTargetValue (getTargetValue (smoothPWMDepth v3))
                (smoothPWMDepth v3)\<rparr>)"

text \<open>
  The voice of a newly created instance with no presets (the constructor's voice after
  the default-parameter loop), and the text of a number as the parameter interface
  receives it.
\<close>

definition fresh_voice :: HeraVoiceState where
  "fresh_voice =
     new_voice\<lparr>dco := (dco new_voice)\<lparr>dco_sawLevel := 1\<rparr>,
               smoothPWMDepth := \<lparr>sm_current = 0, sm_target = 0.5\<rparr>\<rparr>"

definition number_text :: "real \<Rightarrow> c_text" where
  "number_text x = \<lparr>atoi = c_int x, atof = x, json_numbers = []\<rparr>"

text \<open>
  A history of interface calls on a new instance: a note is played, the VCA type is
  switched to gate, all notes are turned off, and the VCA type is switched back.
\<close>

definition vca_switch_history :: hera_instance where
  "vca_switch_history =
     v2_set_param
       (v2_on_midi
          (v2_set_param
             (v2_on_midi (v2_create_instance []) [0x90, 60, 100])
             ''vca_type'' (number_text 1))
          [0xB0, 123, 0])
       ''vca_type'' (number_text 0)"

text \<open>
  A preset as loaded from a file that gives the filter cutoff the value 5
  (\<open><PARAM id="VCFCutoff" value="5"/>\<close>) and names no other parameter.
\<close>

definition hot_preset :: HeraPreset where
  "hot_preset = \<lparr>p_name = ''Hot'', p_values = g_param_defaults[10 := 5]\<rparr>"

subsection \<open>The cutoff formula in the words of the specification\<close>

text \<open>
  The specification's sum of octave contributions: the base cutoff and resonance
  contribution, \<open>envelope_depth * envelope_value * 12\<close>,
  \<open>lfo_depth * amplitude_envelope_value\<close>, \<open>key_track_depth * (note - 60) / 12\<close> and
  \<open>bend_depth * bend_semitones * (48 / 84)\<close>, where the depths are the smoothed depth
  parameters.
\<close>

definition spec_cutoff_octaves ::
  "real \<Rightarrow> real \<Rightarrow> real \<Rightarrow> real \<Rightarrow> real \<Rightarrow> real \<Rightarrow> int \<Rightarrow> real \<Rightarrow> real \<Rightarrow> real" where
  "spec_cutoff_octaves base_octaves envelope_depth envelope_value lfo_depth
       amplitude_envelope_value key_track_depth n bend_depth bend_semitones =
     base_octaves + envelope_depth * envelope_value * 12
       + lfo_depth * amplitude_envelope_value
       + key_track_depth * (real_of_int (n - 60) / 12)
       + bend_depth * bend_semitones * (48 / 84)"

definition MOVE_SAMPLE_RATE :: real where "MOVE_SAMPLE_RATE = 44100"

text \<open>
  Buffers as the instance holds them: arrays of \<open>MAX_BLOCK_SIZE\<close> floats. \<open>settled\<close> is
  a smoother that has reached its target and yields it at every call; \<open>silent_buffers\<close>
  are all zero.
\<close>

definition block_sized :: "hera_buffers \<Rightarrow> bool" where
  "block_sized b =
     (length (lfoBuffer b) = MAX_BLOCK_SIZE \<and> length (detuneBuffer b) = MAX_BLOCK_SIZE
      \<and> length (envelopeBuffer b) = MAX_BLOCK_SIZE \<and> length (gateBuffer b) = MAX_BLOCK_SIZE
      \<and> length (cutoffOctavesBuffer b) = MAX_BLOCK_SIZE
      \<and> length (cutoffBuffer b) = MAX_BLOCK_SIZE
      \<and> length (resonanceBuffer b) = MAX_BLOCK_SIZE
      \<and> length (vcfEnvModBuffer b) = MAX_BLOCK_SIZE
      \<and> length (vcfLFODetuneOctavesBuffer b) = MAX_BLOCK_SIZE
      \<and> length (vcfKeyboardModBuffer b) = MAX_BLOCK_SIZE
      \<and> length (vcfBendDepthBuffer b) = MAX_BLOCK_SIZE)"

definition settled :: next_value where
  "settled s = (sm_target s, s\<lparr>sm_current := sm_target s\<rparr>)"

definition silent_buffers :: hera_buffers where
  "silent_buffers =
     \<lparr>lfoBuffer = replicate MAX_BLOCK_SIZE 0, detuneBuffer = replicate MAX_BLOCK_SIZE 0,
      envelopeBuffer = replicate MAX_BLOCK_SIZE 0, gateBuffer = replicate MAX_BLOCK_SIZE 0,
      cutoffOctavesBuffer = replicate MAX_BLOCK_SIZE 0,
      cutoffBuffer = replicate MAX_BLOCK_SIZE 0,
      resonanceBuffer = replicate MAX_BLOCK_SIZE 0,
      vcfEnvModBuffer = replicate MAX_BLOCK_SIZE 0,
      vcfLFODetuneOctavesBuffer = replicate MAX_BLOCK_SIZE 0,
      vcfKeyboardModBuffer = replicate MAX_BLOCK_SIZE 0,
      vcfBendDepthBuffer = replicate MAX_BLOCK_SIZE 0\<rparr>"

text \<open>
  Two instances set up through the parameter interface, and a block of 128 frames
  rendered on silent buffers with settled smoothers and a constant LFO output \<open>l\<close>.
  \<open>full_envelope\<close> is an envelope buffer at level 1.
\<close>

definition lfo_mod_instance :: hera_instance where
  "lfo_mod_instance =
     v2_set_param
       (v2_set_param (v2_create_instance []) ''vcf_cutoff'' (number_text 0))
       ''vcf_lfo'' (number_text 1)"

definition bright_instance :: hera_instance where
  "bright_instance =
     v2_set_param
       (v2_set_param (v2_create_instance []) ''vcf_cutoff'' (number_text (24 / 25)))
       ''vcf_lfo'' (number_text 0)"

definition settled_block :: "real \<Rightarrow> hera_instance \<Rightarrow> hera_instance \<times> hera_buffers" where
  "settled_block l inst =
     render_block_buses settled (replicate MAX_BLOCK_SIZE l) 128 (inst, silent_buffers)"

definition full_envelope :: "real list" where
  "full_envelope = replicate MAX_BLOCK_SIZE 1"

section \<open>Properties\<close>

subsection \<open>Loops over the pool\<close>

lemma find_upt_Some:
  "find P [0..<n] = Some i \<longleftrightarrow> i < n \<and> P i \<and> (\<forall>j<i. \<not> P j)"
  by (auto simp: find_Some_iff)

lemma find_upt_None: "find P [0..<n] = None \<longleftrightarrow> (\<forall>i<n. \<not> P i)"
  by (auto simp: find_None_iff)

lemma length_each_voice_fold:
  "length (fold (\<lambda>i ws. ws[i := f (ws ! i)]) [0..<n] vs) = length vs"
  by (induction n) auto

lemma each_voice_fold:
  "i < length vs \<Longrightarrow>
   fold (\<lambda>i ws. ws[i := f (ws ! i)]) [0..<n] vs ! i = (if i < n then f (vs ! i) else vs ! i)"
  by (induction n) (auto simp: nth_list_update less_Suc_eq length_each_voice_fold)

lemma length_each_voice [simp]: "length (each_voice f vs) = length vs"
  by (simp add: each_voice_def length_each_voice_fold)

lemma nth_each_voice:
  "i < length vs \<Longrightarrow> each_voice f vs ! i = (if i < MAX_VOICES then f (vs ! i) else vs ! i)"
  by (simp add: each_voice_def each_voice_fold)

lemma each_voice_map: "length vs = MAX_VOICES \<Longrightarrow> each_voice f vs = map f vs"
  by (rule nth_equalityI) (simp_all add: nth_each_voice)

lemma find_free_voice_less: "find_free_voice inst < MAX_VOICES"
  by (auto simp: find_free_voice_def find_upt_Some MAX_VOICES_def split: option.splits)

lemmas pool_eval =
  find_free_voice_def has_unreleased_voices_def MAX_VOICES_def upt_rec with_voices_def
  held_voice_def releasing_voice_def new_voice_def new_envelope_def isReleased_def
  env_isReleased_def nth_Cons'

subsection \<open>C1: the allocation policy\<close>

text \<open>
  Claim C1. The slot that \<open>find_free_voice\<close> chooses for a note-on is the
  lowest-indexed slot of the pool that is not assigned; if every slot is assigned, the
  lowest-indexed slot whose governing envelope reports released; if none is released,
  slot 0. The slot always lies in the pool, and after \<open>note_on\<close> it is assigned and
  holds the new note: a note-on is never dropped.
\<close>

theorem find_free_voice_policy:
  assumes "length (voices inst) = MAX_VOICES"
  shows "find_free_voice inst < MAX_VOICES \<and>
   ((\<exists>i<MAX_VOICES. \<not> active (voices inst ! i)) \<longrightarrow>
       \<not> active (voices inst ! find_free_voice inst)
       \<and> (\<forall>j<find_free_voice inst. active (voices inst ! j))) \<and>
   ((\<forall>i<MAX_VOICES. active (voices inst ! i)) \<and> (\<exists>i<MAX_VOICES. isReleased (voices inst ! i)) \<longrightarrow>
       isReleased (voices inst ! find_free_voice inst)
       \<and> (\<forall>j<find_free_voice inst. \<not> isReleased (voices inst ! j))) \<and>
   ((\<forall>i<MAX_VOICES. active (voices inst ! i) \<and> \<not> isReleased (voices inst ! i)) \<longrightarrow>
       find_free_voice inst = 0) \<and>
   active (voices (note_on inst n vel) ! find_free_voice inst) \<and>
   note_num (voices (note_on inst n vel) ! find_free_voice inst) = n"
proof -
  let ?r = "find_free_voice inst"
  have r: "?r < MAX_VOICES" by (rule find_free_voice_less)
  have a: "(\<exists>i<MAX_VOICES. \<not> active (voices inst ! i)) \<longrightarrow>
       \<not> active (voices inst ! ?r) \<and> (\<forall>j<?r. active (voices inst ! j))"
    by (auto simp: find_free_voice_def find_upt_Some find_upt_None split: option.splits)
  have b: "(\<forall>i<MAX_VOICES. active (voices inst ! i)) \<and> (\<exists>i<MAX_VOICES. isReleased (voices inst ! i)) \<longrightarrow>
       isReleased (voices inst ! ?r) \<and> (\<forall>j<?r. \<not> isReleased (voices inst ! j))"
    by (auto simp: find_free_voice_def find_upt_Some find_upt_None split: option.splits)
  have c: "(\<forall>i<MAX_VOICES. active (voices inst ! i) \<and> \<not> isReleased (voices inst ! i)) \<longrightarrow> ?r = 0"
    by (auto simp: find_free_voice_def find_upt_Some find_upt_None split: option.splits)
  have d: "active (voices (note_on inst n vel) ! ?r) \<and> note_num (voices (note_on inst n vel) ! ?r) = n"
    using r assms by (simp add: note_on_def Let_def on_current_envelope_def)
  from r a b c d show ?thesis by blast
qed

theorem find_free_voice_policy_witness:
  "length (voices (with_voices [held_voice 60, held_voice 62, new_voice, new_voice, new_voice, new_voice])) = MAX_VOICES
   \<and> (\<exists>i<MAX_VOICES. \<not> active (voices (with_voices [held_voice 60, held_voice 62, new_voice, new_voice, new_voice, new_voice]) ! i))
   \<and> find_free_voice (with_voices [held_voice 60, held_voice 62, new_voice, new_voice, new_voice, new_voice]) = 2
   \<and> active (voices (note_on (with_voices [held_voice 60, held_voice 62, new_voice, new_voice, new_voice, new_voice]) 64 1) ! 2)
   \<and> length (voices (with_voices [held_voice 60, releasing_voice 62, held_voice 64, releasing_voice 65, held_voice 67, held_voice 69])) = MAX_VOICES
   \<and> list_all active (voices (with_voices [held_voice 60, releasing_voice 62, held_voice 64, releasing_voice 65, held_voice 67, held_voice 69]))
   \<and> find_free_voice (with_voices [held_voice 60, releasing_voice 62, held_voice 64, releasing_voice 65, held_voice 67, held_voice 69]) = 1
   \<and> note_num (voices (note_on (with_voices [held_voice 60, releasing_voice 62, held_voice 64, releasing_voice 65, held_voice 67, held_voice 69]) 71 1) ! 1) = 71
   \<and> length (voices (with_voices [held_voice 60, held_voice 62, held_voice 64, held_voice 65, held_voice 67, held_voice 69])) = MAX_VOICES
   \<and> list_all (\<lambda>v. active v \<and> \<not> isReleased v)
         (voices (with_voices [held_voice 60, held_voice 62, held_voice 64, held_voice 65, held_voice 67, held_voice 69]))
   \<and> find_free_voice (with_voices [held_voice 60, held_voice 62, held_voice 64, held_voice 65, held_voice 67, held_voice 69]) = 0
   \<and> note_num (voices (note_on (with_voices [held_voice 60, held_voice 62, held_voice 64, held_voice 65, held_voice 67, held_voice 69]) 71 1) ! 0) = 71"
proof -
  let ?a = "with_voices [held_voice 60, held_voice 62, new_voice, new_voice, new_voice, new_voice]"
  let ?b = "with_voices [held_voice 60, releasing_voice 62, held_voice 64, releasing_voice 65, held_voice 67, held_voice 69]"
  let ?c = "with_voices [held_voice 60, held_voice 62, held_voice 64, held_voice 65, held_voice 67, held_voice 69]"
  have la: "length (voices ?a) = MAX_VOICES" and lb: "length (voices ?b) = MAX_VOICES"
    and lc: "length (voices ?c) = MAX_VOICES"
    by (simp_all add: with_voices_def MAX_VOICES_def)
  have ha: "\<exists>i<MAX_VOICES. \<not> active (voices ?a ! i)"
    by (rule exI[of _ 2]) (simp add: with_voices_def MAX_VOICES_def new_voice_def)
  have hb: "list_all active (voices ?b)"
    by (simp add: with_voices_def held_voice_def releasing_voice_def)
  have hc: "list_all (\<lambda>v. active v \<and> \<not> isReleased v) (voices ?c)"
    by (simp add: with_voices_def held_voice_def isReleased_def env_isReleased_def
        new_voice_def)
  have ra: "find_free_voice ?a = 2" and rb: "find_free_voice ?b = 1" and rc: "find_free_voice ?c = 0"
    by (simp_all add: pool_eval)
  from find_free_voice_policy[OF la, of 64 1] ra
  have na: "active (voices (note_on ?a 64 1) ! 2)" by simp
  from find_free_voice_policy[OF lb, of 71 1] rb
  have nb: "note_num (voices (note_on ?b 71 1) ! 1) = 71" by simp
  from find_free_voice_policy[OF lc, of 71 1] rc
  have nc: "note_num (voices (note_on ?c 71 1) ! 0) = 71" by simp
  from la ha ra na lb hb rb nb lc hc rc nc show ?thesis by blast
qed

subsection \<open>What the scheduler's operations leave alone\<close>

lemma voices_note_on:
  "voices (note_on s n vel) =
     (voices s)[find_free_voice s :=
        assigned_voice (vcaType s) n vel (voices s ! find_free_voice s)]"
  by (simp add: note_on_def assigned_voice_def Let_def)

lemma length_voices_note_on [simp]: "length (voices (note_on s n vel)) = length (voices s)"
  by (simp add: voices_note_on)

lemma note_on_scalars [simp]:
  "vcaType (note_on s n vel) = vcaType s"
  "lfoMode (note_on s n vel) = lfoMode s"
  "octave_transpose (note_on s n vel) = octave_transpose s"
  by (simp_all add: note_on_def Let_def)

lemma lfo_note_on:
  "lfo (note_on s n vel) =
     (if lfoMode s = kHeraLFOAuto
         \<and> \<not> has_unreleased_voices
               (s\<lparr>voices := (voices s)[find_free_voice s :=
                    (voices s ! find_free_voice s)
                      \<lparr>active := True, note_num := n, frequency := midi_to_freq n,
                       velocity := vel, v_vcaType := vcaType s\<rparr>]\<rparr>)
      then lfo s @ [LfoNoteOn] else lfo s)"
  by (simp add: note_on_def Let_def)

lemma assigned_voice_simps [simp]:
  "active (assigned_voice t n vel v)"
  "note_num (assigned_voice t n vel v) = n"
  "v_vcaType (assigned_voice t n vel v) = t"
  "\<not> isReleased (assigned_voice t n vel v)"
  by (simp_all add: assigned_voice_def Let_def on_current_envelope_def isReleased_def
      env_isReleased_def env_noteOn_def)

lemma note_off_None:
  "find (note_off_match s n) [0..<MAX_VOICES] = None \<Longrightarrow> note_off s n = s"
  by (simp add: note_off_def)

lemma voices_note_off_Some:
  "find (note_off_match s n) [0..<MAX_VOICES] = Some i \<Longrightarrow>
   voices (note_off s n) = (voices s)[i := on_current_envelope env_noteOff (voices s ! i)]"
  by (simp add: note_off_def Let_def)

lemma length_voices_note_off [simp]: "length (voices (note_off s n)) = length (voices s)"
  by (cases "find (note_off_match s n) [0..<MAX_VOICES]")
     (simp_all add: note_off_None voices_note_off_Some)

lemma note_off_scalars [simp]:
  "vcaType (note_off s n) = vcaType s"
  "lfoMode (note_off s n) = lfoMode s"
  "octave_transpose (note_off s n) = octave_transpose s"
  by (simp_all add: note_off_def Let_def split: option.splits)

lemma on_current_envelope_keeps [simp]:
  "active (on_current_envelope f v) = active v"
  "note_num (on_current_envelope f v) = note_num v"
  "v_vcaType (on_current_envelope f v) = v_vcaType v"
  "dco (on_current_envelope f v) = dco v"
  by (simp_all add: on_current_envelope_def)

lemma getCurrentEnvelope_on_current [simp]:
  "getCurrentEnvelope (on_current_envelope f v) = f (getCurrentEnvelope v)"
  by (simp add: on_current_envelope_def getCurrentEnvelope_def)

lemma isReleased_current: "isReleased v = env_isReleased (getCurrentEnvelope v)"
  by (simp add: isReleased_def getCurrentEnvelope_def)

lemma released_after_noteOff: "env_isReleased (env_noteOff e)"
  by (cases "stage e") (simp_all add: env_isReleased_def env_noteOff_def)

lemma note_off_keeps_assignment:
  "map active (voices (note_off s n)) = map active (voices s)
   \<and> map note_num (voices (note_off s n)) = map note_num (voices s)"
proof (cases "find (note_off_match s n) [0..<MAX_VOICES]")
  case None
  then show ?thesis by (simp add: note_off_None)
next
  case (Some i)
  then show ?thesis
    by (simp add: voices_note_off_Some map_update) (metis list_update_id nth_map map_update list_update_beyond not_le)
qed

subsection \<open>C6: note-off releases the first matching voice only\<close>

text \<open>
  Claim C6. On \<open>note_off n\<close>, the first voice of the pool that is active, holds note
  \<open>n\<close> and is not yet released has its governing envelope released; every other voice,
  a later voice holding the same note included, is left as it was, and the released
  voice changes in its governing envelope only.
\<close>

theorem note_off_first_match:
  assumes "length (voices s) = MAX_VOICES"
    and "i < MAX_VOICES"
    and "active (voices s ! i) \<and> note_num (voices s ! i) = n \<and> \<not> isReleased (voices s ! i)"
    and "\<forall>j<i. \<not> (active (voices s ! j) \<and> note_num (voices s ! j) = n
                    \<and> \<not> isReleased (voices s ! j))"
  shows "voices (note_off s n) = (voices s)[i := on_current_envelope env_noteOff (voices s ! i)]
    \<and> getCurrentEnvelope (voices (note_off s n) ! i) = env_noteOff (getCurrentEnvelope (voices s ! i))
    \<and> isReleased (voices (note_off s n) ! i)
    \<and> (\<forall>k<MAX_VOICES. k \<noteq> i \<longrightarrow> voices (note_off s n) ! k = voices s ! k)"
proof -
  from assms(2-4) have f: "find (note_off_match s n) [0..<MAX_VOICES] = Some i"
    by (simp add: find_upt_Some note_off_match_def)
  have v: "voices (note_off s n) = (voices s)[i := on_current_envelope env_noteOff (voices s ! i)]"
    by (rule voices_note_off_Some[OF f])
  from assms(1,2) have e: "voices (note_off s n) ! i = on_current_envelope env_noteOff (voices s ! i)"
    by (simp add: v)
  have r: "isReleased (voices (note_off s n) ! i)"
    by (simp add: e isReleased_current released_after_noteOff)
  have o: "\<forall>k<MAX_VOICES. k \<noteq> i \<longrightarrow> voices (note_off s n) ! k = voices s ! k"
    by (simp add: v)
  from v e r o show ?thesis by simp
qed

theorem note_off_first_match_witness:
  "length (voices (with_voices [held_voice 62, held_voice 60, held_voice 60, new_voice, new_voice, new_voice])) = MAX_VOICES
   \<and> 1 < MAX_VOICES
   \<and> active (voices (with_voices [held_voice 62, held_voice 60, held_voice 60, new_voice, new_voice, new_voice]) ! 1)
   \<and> note_num (voices (with_voices [held_voice 62, held_voice 60, held_voice 60, new_voice, new_voice, new_voice]) ! 1) = 60
   \<and> \<not> isReleased (voices (with_voices [held_voice 62, held_voice 60, held_voice 60, new_voice, new_voice, new_voice]) ! 1)
   \<and> note_num (voices (with_voices [held_voice 62, held_voice 60, held_voice 60, new_voice, new_voice, new_voice]) ! 0) \<noteq> 60
   \<and> voices (note_off (with_voices [held_voice 62, held_voice 60, held_voice 60, new_voice, new_voice, new_voice]) 60)
       = [held_voice 62, releasing_voice 60, held_voice 60, new_voice, new_voice, new_voice]"
proof -
  let ?s = "with_voices [held_voice 62, held_voice 60, held_voice 60, new_voice, new_voice, new_voice]"
  have l: "length (voices ?s) = MAX_VOICES" and i: "1 < MAX_VOICES"
    by (simp_all add: with_voices_def MAX_VOICES_def)
  have m: "active (voices ?s ! 1) \<and> note_num (voices ?s ! 1) = 60 \<and> \<not> isReleased (voices ?s ! 1)"
    by (simp add: with_voices_def held_voice_def isReleased_def env_isReleased_def new_voice_def)
  have z: "note_num (voices ?s ! 0) \<noteq> 60"
    by (simp add: with_voices_def held_voice_def)
  then have p: "\<forall>j<1. \<not> (active (voices ?s ! j) \<and> note_num (voices ?s ! j) = 60
                    \<and> \<not> isReleased (voices ?s ! j))"
    by simp
  have u: "(voices ?s)[1 := on_current_envelope env_noteOff (voices ?s ! 1)]
      = [held_voice 62, releasing_voice 60, held_voice 60, new_voice, new_voice, new_voice]"
    by (simp add: with_voices_def held_voice_def releasing_voice_def on_current_envelope_def
        env_noteOff_def new_voice_def)
  from note_off_first_match[OF l i m p] u
  have "voices (note_off ?s 60)
      = [held_voice 62, releasing_voice 60, held_voice 60, new_voice, new_voice, new_voice]"
    by simp
  with l i m z show ?thesis by simp
qed

subsection \<open>C10: a note-on with velocity 0 is a note-off\<close>

text \<open>
  Claim C10. A MIDI message with status \<open>0x90\<close> whose velocity byte is 0 performs
  \<open>note_off\<close> for the transposed note: the result is that of \<open>note_off\<close>, no slot
  changes its assignment or its note, and when a voice is active, holds that note and
  is not yet released, the first such voice has its governing envelope released while
  all other voices stay as they were.
\<close>

theorem note_on_velocity_zero:
  assumes "3 \<le> length msg" and "(msg ! 0) AND 0xF0 = 0x90" and "msg ! 2 = 0"
    and "length (voices s) = MAX_VOICES"
  shows "v2_on_midi s msg = note_off s (transpose_note s (uint (msg ! 1)))
    \<and> map active (voices (v2_on_midi s msg)) = map active (voices s)
    \<and> map note_num (voices (v2_on_midi s msg)) = map note_num (voices s)
    \<and> (\<forall>i<MAX_VOICES.
          active (voices s ! i) \<and> note_num (voices s ! i) = transpose_note s (uint (msg ! 1))
            \<and> \<not> isReleased (voices s ! i)
          \<and> (\<forall>j<i. \<not> (active (voices s ! j)
                \<and> note_num (voices s ! j) = transpose_note s (uint (msg ! 1))
                \<and> \<not> isReleased (voices s ! j)))
          \<longrightarrow> voices (v2_on_midi s msg)
                = (voices s)[i := on_current_envelope env_noteOff (voices s ! i)]
              \<and> isReleased (voices (v2_on_midi s msg) ! i))"
proof -
  let ?n = "transpose_note s (uint (msg ! 1))"
  from assms(1-3) have eq: "v2_on_midi s msg = note_off s ?n"
    by (simp add: v2_on_midi_def Let_def)
  have keep: "map active (voices (note_off s ?n)) = map active (voices s)
      \<and> map note_num (voices (note_off s ?n)) = map note_num (voices s)"
    by (rule note_off_keeps_assignment)
  have first: "voices (note_off s ?n) = (voices s)[i := on_current_envelope env_noteOff (voices s ! i)]
              \<and> isReleased (voices (note_off s ?n) ! i)"
    if "i < MAX_VOICES"
      and "active (voices s ! i) \<and> note_num (voices s ! i) = ?n \<and> \<not> isReleased (voices s ! i)"
      and "\<forall>j<i. \<not> (active (voices s ! j) \<and> note_num (voices s ! j) = ?n
                    \<and> \<not> isReleased (voices s ! j))"
    for i
  proof -
    from that have f: "find (note_off_match s ?n) [0..<MAX_VOICES] = Some i"
      by (simp add: find_upt_Some note_off_match_def)
    have v: "voices (note_off s ?n)
        = (voices s)[i := on_current_envelope env_noteOff (voices s ! i)]"
      by (rule voices_note_off_Some[OF f])
    from that(1) assms(4) show ?thesis
      unfolding v by (simp add: isReleased_current released_after_noteOff)
  qed
  from keep first show ?thesis unfolding eq by blast
qed

theorem note_on_velocity_zero_witness:
  "3 \<le> length [0x90, 60, 0 :: 8 word] \<and> ([0x90, 60, 0 :: 8 word] ! 0) AND 0xF0 = 0x90
   \<and> [0x90, 60, 0 :: 8 word] ! 2 = 0
   \<and> length (voices (with_voices [held_voice 62, held_voice 60, held_voice 60, new_voice, new_voice, new_voice])) = MAX_VOICES
   \<and> v2_on_midi (with_voices [held_voice 62, held_voice 60, held_voice 60, new_voice, new_voice, new_voice])
        [0x90, 60, 0]
      = note_off (with_voices [held_voice 62, held_voice 60, held_voice 60, new_voice, new_voice, new_voice]) 60
   \<and> map active (voices (v2_on_midi (with_voices [held_voice 62, held_voice 60, held_voice 60, new_voice, new_voice, new_voice])
        [0x90, 60, 0])) = [True, True, True, False, False, False]"
proof -
  let ?s = "with_voices [held_voice 62, held_voice 60, held_voice 60, new_voice, new_voice, new_voice]"
  let ?m = "[0x90, 60, 0 :: 8 word]"
  have a: "3 \<le> length ?m" and b: "(?m ! 0) AND 0xF0 = 0x90" and c: "?m ! 2 = 0"
    by simp_all
  have t: "transpose_note ?s (uint (?m ! 1)) = 60"
    by (simp add: transpose_note_def with_voices_def new_instance_def)
  have v: "map active (voices ?s) = [True, True, True, False, False, False]"
    by (simp add: with_voices_def held_voice_def new_voice_def)
  have l: "length (voices ?s) = MAX_VOICES"
    by (simp add: with_voices_def MAX_VOICES_def)
  note w = note_on_velocity_zero[OF a b c l]
  from w have "v2_on_midi ?s ?m = note_off ?s (transpose_note ?s (uint (?m ! 1)))"
    by (rule conjunct1)
  then have e: "v2_on_midi ?s ?m = note_off ?s 60"
    unfolding t .
  from w have "map active (voices (v2_on_midi ?s ?m)) = map active (voices ?s)"
    by blast
  then have k: "map active (voices (v2_on_midi ?s ?m)) = [True, True, True, False, False, False]"
    unfolding v .
  from a b c l e k show ?thesis by blast
qed

subsection \<open>A created instance\<close>

lemma upt26: "[0..<26] = [0,1,2,3,4,5,6,7,8,9,10,11,12,13,14,15,16,17,18,19,20,21,22,23,24,25]"
  by (simp add: upt_rec)

lemma each_voice_replicate: "each_voice f (replicate MAX_VOICES v) = replicate MAX_VOICES (f v)"
  by (simp add: each_voice_map)

lemma replicate26:
  "replicate 26 x = [x,x,x,x,x,x,x,x,x,x,x,x,x,x,x,x,x,x,x,x,x,x,x,x,x,x]"
  by (simp add: eval_nat_numeral)

lemma create_empty:
  "v2_create_instance [] =
     new_instance\<lparr>params := g_param_defaults,
                  voices := replicate MAX_VOICES fresh_voice,
                  lfo := [LfoSetFrequency 0, LfoSetDelayAttack 0],
                  vca_amount := 0.5,
                  smoothCutoff := \<lparr>sm_current = 1, sm_target = 0.5\<rparr>\<rparr>"
  by (simp add: v2_create_instance_def upt26 apply_param_def g_param_defaults_def
      new_instance_def load_presets_def on_voices_def each_voice_replicate c_int_def Let_def
      new_voice_def fresh_voice_def on_dco_def on_normal_envelope_def setTargetValue_def
      new_smooth_def new_envelope_def replicate26)

lemma create_empty_scalars:
  "vcaType (v2_create_instance []) = kHeraVCATypeEnvelope"
  "lfoMode (v2_create_instance []) = kHeraLFOAuto"
  "octave_transpose (v2_create_instance []) = 0"
  "preset_count (v2_create_instance []) = 0"
  "voices (v2_create_instance []) = replicate MAX_VOICES fresh_voice"
  by (simp_all add: create_empty new_instance_def)

lemma apply_param_vcaType:
  "length (voices s) = MAX_VOICES \<Longrightarrow>
   apply_param s kHeraParamVCAType v =
     s\<lparr>params := (params s)[1 := v], vcaType := c_int v,
       voices := map (\<lambda>vo. vo\<lparr>v_vcaType := c_int v\<rparr>) (voices s)\<rparr>"
  by (simp add: apply_param_def on_voices_def each_voice_map)

lemma set_vca_type:
  "v2_set_param s ''vca_type'' val =
     apply_param s kHeraParamVCAType
       (if atof val < 0 then 0 else if atof val > 1 then 1 else atof val)"
  by (simp add: v2_set_param_def set_named_param_def g_shadow_params_def pdef_def
      clamp_param_def Let_def)

lemma all_notes_off_voices:
  "length (voices s) = MAX_VOICES \<Longrightarrow>
   all_notes_off s = s\<lparr>voices := map all_notes_off_voice (voices s)\<rparr>"
  by (simp add: all_notes_off_def each_voice_map)

subsection \<open>The pool keeps its size\<close>

lemma length_voices_apply_param [simp]:
  "length (voices (apply_param s i v)) = length (voices s)"
  by (simp add: apply_param_def Let_def on_voices_def)

lemma length_voices_fold_apply_param:
  "length (voices (fold (\<lambda>i s. apply_param s (int i) (h i)) xs s)) = length (voices s)"
  by (induction xs arbitrary: s) simp_all

lemma length_voices_apply_preset [simp]:
  "length (voices (apply_preset s i)) = length (voices s)"
  by (simp add: apply_preset_def Let_def length_voices_fold_apply_param)

lemma length_voices_create [simp]:
  "length (voices (v2_create_instance loaded)) = MAX_VOICES"
  by (simp add: v2_create_instance_def Let_def load_presets_def
      length_voices_fold_apply_param new_instance_def)

lemma length_voices_all_notes_off [simp]:
  "length (voices (all_notes_off s)) = length (voices s)"
  by (simp add: all_notes_off_def)

lemma length_voices_pitch_bend [simp]:
  "length (voices (pitch_bend s d1 d2)) = length (voices s)"
  by (simp add: pitch_bend_def Let_def on_voices_def)

lemma length_voices_on_midi [simp]:
  "length (voices (v2_on_midi s msg)) = length (voices s)"
  by (simp add: v2_on_midi_def Let_def)

lemma length_voices_restore_fold:
  "length (voices (fold (\<lambda>d s. case g d of None \<Rightarrow> s
                                | Some fval \<Rightarrow> apply_param s (pd_index d) (c d fval)) ds s))
     = length (voices s)"
  by (induction ds arbitrary: s) (simp_all split: option.splits)

lemma length_voices_restore_state [simp]:
  "length (voices (restore_state s val)) = length (voices s)"
  by (simp add: restore_state_def Let_def length_voices_restore_fold split: option.splits)

lemma length_voices_set_param [simp]:
  "length (voices (v2_set_param s key val)) = length (voices s)"
  by (simp add: v2_set_param_def set_named_param_def Let_def split: option.splits)

lemma length_voices_render_fold:
  "length (voices (fold (\<lambda>v s. if active (voices s ! v)
                  then s\<lparr>voices := (voices s)[v := f v (voices s ! v)]\<rparr>
                  else s) xs s)) = length (voices s)"
  by (induction xs arbitrary: s) simp_all

lemma length_voices_render_voices [simp]:
  "length (voices (render_voices pn pg s)) = length (voices s)"
  by (simp add: render_voices_def
      length_voices_render_fold[where f = "\<lambda>v. render_voice (pn v) (pg v)"])

lemma length_voices_step [simp]: "length (voices (step s e)) = length (voices s)"
  by (cases e) simp_all

lemma length_voices_run [simp]: "length (voices (run evs s)) = length (voices s)"
  by (induction evs arbitrary: s) (simp_all add: run_def)

subsection \<open>C7: the key-triggered LFO\<close>

lemma has_unreleased_voices_iff:
  "has_unreleased_voices s \<longleftrightarrow>
     (\<exists>i<MAX_VOICES. active (voices s ! i) \<and> \<not> isReleased (voices s ! i))"
  by (auto simp: has_unreleased_voices_def list_ex_iff)

text \<open>
  What the code does: in key-triggered mode \<open>note_on\<close> calls the LFO's \<open>noteOn\<close>
  exactly when, with the chosen slot already marked active and its envelope not yet
  restarted, no slot of the pool is active and unreleased. A second held note
  therefore never retriggers; a free slot whose governing envelope is released
  triggers exactly when no other voice is held.
\<close>

lemma lfo_trigger_condition:
  assumes "length (voices s) = MAX_VOICES" and "lfoMode s = kHeraLFOAuto"
  shows "lfo (note_on s n vel) = lfo s @ [LfoNoteOn] \<longleftrightarrow>
     (\<forall>k<MAX_VOICES. k \<noteq> find_free_voice s \<longrightarrow>
          \<not> (active (voices s ! k) \<and> \<not> isReleased (voices s ! k)))
     \<and> isReleased ((voices s ! find_free_voice s)\<lparr>v_vcaType := vcaType s\<rparr>)"
proof -
  let ?r = "find_free_voice s"
  have r: "?r < MAX_VOICES" by (rule find_free_voice_less)
  have rel: "isReleased ((voices s ! ?r)\<lparr>active := True, note_num := n,
        frequency := midi_to_freq n, velocity := vel, v_vcaType := vcaType s\<rparr>)
      = isReleased ((voices s ! ?r)\<lparr>v_vcaType := vcaType s\<rparr>)"
    by (simp add: isReleased_def)
  show ?thesis
    using assms r
    apply (simp add: lfo_note_on has_unreleased_voices_iff nth_list_update rel)
    apply (auto simp: rel)
    done
qed

lemma lfo_no_retrigger:
  assumes "length (voices s) = MAX_VOICES"
    and "k < MAX_VOICES" and "k \<noteq> find_free_voice s"
    and "active (voices s ! k)" and "\<not> isReleased (voices s ! k)"
  shows "lfo (note_on s n vel) = lfo s"
proof -
  have "has_unreleased_voices
          (s\<lparr>voices := (voices s)[find_free_voice s :=
                (voices s ! find_free_voice s)
                  \<lparr>active := True, note_num := n, frequency := midi_to_freq n,
                   velocity := vel, v_vcaType := vcaType s\<rparr>]\<rparr>)"
    unfolding has_unreleased_voices_iff using assms
    by (intro exI[of _ k]) (simp add: nth_list_update)
  then show ?thesis by (simp add: lfo_note_on)
qed

lemma lfo_released_on_last_note_off:
  assumes "find (note_off_match s n) [0..<MAX_VOICES] = Some i"
    and "lfoMode s = kHeraLFOAuto" and "length (voices s) = MAX_VOICES"
    and "\<forall>k<MAX_VOICES. k \<noteq> i \<longrightarrow> \<not> (active (voices s ! k) \<and> \<not> isReleased (voices s ! k))"
  shows "lfo (note_off s n) = lfo s @ [LfoNoteOff]"
proof -
  from assms(1) have i: "i < MAX_VOICES" by (simp add: find_upt_Some)
  have "\<not> has_unreleased_voices
          (s\<lparr>voices := (voices s)[i := on_current_envelope env_noteOff (voices s ! i)]\<rparr>)"
    using assms(3,4) i
    by (auto simp: has_unreleased_voices_iff nth_list_update isReleased_current
        released_after_noteOff)
  with assms(1,2) show ?thesis
    by (simp add: note_off_def Let_def)
qed


lemma midi_note_on:
  "v2_on_midi s [0x90, d1, 100] = note_on s (transpose_note s (uint d1)) (100 / 127)"
  by (simp add: v2_on_midi_def Let_def)

lemma midi_all_notes_off: "v2_on_midi s [0xB0, 123, 0] = all_notes_off s"
  by (simp add: v2_on_midi_def Let_def)

lemma find_free_voice_first:
  "\<not> active (voices s ! 0) \<Longrightarrow> find_free_voice s = 0"
  by (simp add: find_free_voice_def MAX_VOICES_def upt_rec)

lemma vca_switch_history_voices:
  "voices vca_switch_history =
     (assigned_voice 0 60 (100 / 127) fresh_voice)\<lparr>active := False, note_num := - 1\<rparr>
     # replicate 5 fresh_voice
   \<and> vcaType vca_switch_history = kHeraVCATypeEnvelope
   \<and> lfoMode vca_switch_history = kHeraLFOAuto
   \<and> octave_transpose vca_switch_history = 0"
proof -
  let ?s0 = "v2_create_instance []"
  let ?s1 = "v2_on_midi ?s0 [0x90, 60, 100]"
  let ?s2 = "v2_set_param ?s1 ''vca_type'' (number_text 1)"
  let ?s3 = "v2_on_midi ?s2 [0xB0, 123, 0]"
  let ?a = "assigned_voice 0 60 (100 / 127) fresh_voice"
  have f0: "find_free_voice ?s0 = 0"
    by (rule find_free_voice_first)
       (simp add: create_empty_scalars MAX_VOICES_def fresh_voice_def new_voice_def)
  have e1: "?s1 = note_on ?s0 60 (100 / 127)"
    by (simp add: midi_note_on transpose_note_def create_empty_scalars)
  have v1: "voices ?s1 = ?a # replicate 5 fresh_voice"
    unfolding e1
    by (simp add: voices_note_on f0 create_empty_scalars MAX_VOICES_def eval_nat_numeral)
  have c1: "vcaType ?s1 = 0 \<and> lfoMode ?s1 = 1 \<and> octave_transpose ?s1 = 0"
    unfolding e1 by (simp add: create_empty_scalars)
  have l1: "length (voices ?s1) = MAX_VOICES"
    by (simp add: v1 MAX_VOICES_def)
  have e2: "?s2 = ?s1\<lparr>params := (params ?s1)[1 := 1], vcaType := 1,
                 voices := map (\<lambda>vo. vo\<lparr>v_vcaType := 1\<rparr>) (voices ?s1)\<rparr>"
    by (simp add: set_vca_type number_text_def apply_param_vcaType l1 c_int_def)
  have l2: "length (voices ?s2) = MAX_VOICES"
    unfolding e2 by (simp add: l1)
  have e3: "?s3 = ?s2\<lparr>voices := map all_notes_off_voice (voices ?s2)\<rparr>"
    by (simp only: midi_all_notes_off all_notes_off_voices[OF l2])
  have l3: "length (voices ?s3) = MAX_VOICES"
    unfolding e3 by (simp add: l2)
  have e4: "vca_switch_history
      = ?s3\<lparr>params := (params ?s3)[1 := 0], vcaType := 0,
            voices := map (\<lambda>vo. vo\<lparr>v_vcaType := 0\<rparr>) (voices ?s3)\<rparr>"
    unfolding vca_switch_history_def
    by (simp add: set_vca_type number_text_def apply_param_vcaType c_int_def l1)
  have v2: "voices ?s2 = map (\<lambda>vo. vo\<lparr>v_vcaType := 1\<rparr>) (voices ?s1)"
    unfolding e2 by simp
  have c2: "lfoMode ?s2 = 1 \<and> octave_transpose ?s2 = 0"
    unfolding e2 using c1 by simp
  have v3: "voices ?s3 = map all_notes_off_voice (voices ?s2)"
    unfolding e3 by simp
  have c3: "lfoMode ?s3 = 1 \<and> octave_transpose ?s3 = 0"
    unfolding e3 using c2 by simp
  have v4: "voices vca_switch_history = map (\<lambda>vo. vo\<lparr>v_vcaType := 0\<rparr>) (voices ?s3)"
    unfolding e4 by simp
  have c4: "vcaType vca_switch_history = 0 \<and> lfoMode vca_switch_history = 1
      \<and> octave_transpose vca_switch_history = 0"
    unfolding e4 using c3 by simp
  have a: "(all_notes_off_voice (?a\<lparr>v_vcaType := 1\<rparr>))\<lparr>v_vcaType := 0\<rparr>
      = ?a\<lparr>active := False, note_num := - 1\<rparr>"
    by (simp add: all_notes_off_voice_def assigned_voice_def on_current_envelope_def
        env_noteOn_def env_shutdown_def fresh_voice_def new_voice_def new_envelope_def Let_def)
  have b: "(all_notes_off_voice (fresh_voice\<lparr>v_vcaType := 1\<rparr>))\<lparr>v_vcaType := 0\<rparr>
      = fresh_voice"
    by (simp add: all_notes_off_voice_def fresh_voice_def new_voice_def)
  have "voices vca_switch_history
      = map (\<lambda>vo. (all_notes_off_voice (vo\<lparr>v_vcaType := 1\<rparr>))\<lparr>v_vcaType := 0\<rparr>)
          (?a # replicate 5 fresh_voice)"
    by (simp only: v4 v3 v2 v1 map_map comp_def)
  with a b c4 show ?thesis by simp
qed

text \<open>
  Claim C7. In key-triggered mode a note-on triggers the shared LFO if and only if no
  other voice is held at that moment. Evaluated on the history \<open>vca_switch_history\<close>:
  the LFO is in key-triggered mode and no voice is assigned, let alone held, yet the
  next note-on does not trigger the LFO. Slot 0 was reclaimed through its gate
  envelope while its normal envelope stayed in the attack stage; \<open>note_on\<close> marks the
  slot active before it asks \<open>has_unreleased_voices\<close> and restarts the envelope only
  afterwards, so the slot's own stale envelope counts as a held voice.
\<close>

theorem lfo_trigger_missed:
  "lfoMode vca_switch_history = kHeraLFOAuto
   \<and> list_all (\<lambda>v. \<not> active v) (voices vca_switch_history)
   \<and> \<not> has_unreleased_voices vca_switch_history
   \<and> find_free_voice vca_switch_history = 0
   \<and> lfo (v2_on_midi vca_switch_history [0x90, 62, 100]) = lfo vca_switch_history"
proof -
  note h = vca_switch_history_voices
  let ?s = vca_switch_history
  have m: "lfoMode ?s = 1" using h by simp
  have i: "list_all (\<lambda>v. \<not> active v) (voices ?s)"
    using h by (simp add: fresh_voice_def new_voice_def list_all_iff)
  have u: "\<not> has_unreleased_voices ?s"
    using h
    by (simp add: has_unreleased_voices_def MAX_VOICES_def upt_rec nth_Cons'
        fresh_voice_def new_voice_def)
  have f: "find_free_voice ?s = 0"
    by (rule find_free_voice_first) (simp add: h)
  have e: "v2_on_midi ?s [0x90, 62, 100] = note_on ?s 62 (100 / 127)"
    using h by (simp add: midi_note_on transpose_note_def)
  have l: "lfo (note_on ?s 62 (100 / 127)) = lfo ?s"
    using h
    by (simp add: lfo_note_on f has_unreleased_voices_def MAX_VOICES_def upt_rec
        isReleased_def env_isReleased_def assigned_voice_def on_current_envelope_def
        env_noteOn_def Let_def)
  from m i u f e l show ?thesis by simp
qed

subsection \<open>C2: bounded polyphony\<close>

lemma active_voices_le: "active_voices s \<le> length (voices s)"
  by (simp add: active_voices_def)

lemma find_free_voice_all_active:
  assumes "list_all active (voices s)" and "length (voices s) = MAX_VOICES"
  shows "find_free_voice s
     = (case find (\<lambda>i. isReleased (voices s ! i)) [0..<MAX_VOICES] of
          Some i \<Rightarrow> i | None \<Rightarrow> 0)"
proof -
  from assms have "find (\<lambda>i. \<not> active (voices s ! i)) [0..<MAX_VOICES] = None"
    by (simp add: find_upt_None list_all_length)
  then show ?thesis by (simp add: find_free_voice_def)
qed

lemma filter_active_all: "list_all active vs \<Longrightarrow> filter active vs = vs"
  by (induction vs) simp_all

lemma count_active_update:
  "\<not> active (vs ! k) \<Longrightarrow> k < length vs \<Longrightarrow>
   length (filter active (vs[k := assigned_voice t n vel (vs ! k)]))
     = Suc (length (filter active vs))"
proof (induction vs arbitrary: k)
  case Nil
  then show ?case by simp
next
  case (Cons a vs)
  then show ?case by (cases k) simp_all
qed

text \<open>
  Claim C2. Along every history of note-on, note-off and render events from a newly
  created instance the pool has \<open>MAX_VOICES = 6\<close> slots, so at most 6 voices are
  active, also after one more note-on. A note-on always lands: the slot it chooses is
  afterwards active and holds the new note, and when that slot was free the number of
  active voices grows by one. When all 6 slots are active, the slot that a further
  note-on takes is the first released slot, else slot 0, a function of the state the
  history has led to; that slot then holds the new note with its envelope restarted,
  the other five voices are untouched and 6 voices are active afterwards.
\<close>

theorem polyphony_bounded:
  "length (voices (run evs (v2_create_instance loaded))) = MAX_VOICES
   \<and> MAX_VOICES = 6
   \<and> active_voices (run evs (v2_create_instance loaded)) \<le> MAX_VOICES
   \<and> active_voices (note_on (run evs (v2_create_instance loaded)) n vel) \<le> MAX_VOICES
   \<and> (list_all active (voices (run evs (v2_create_instance loaded))) \<longrightarrow>
        find_free_voice (run evs (v2_create_instance loaded))
          = (case find (\<lambda>i. isReleased (voices (run evs (v2_create_instance loaded)) ! i))
                   [0..<MAX_VOICES] of
               Some i \<Rightarrow> i | None \<Rightarrow> 0)
        \<and> (\<forall>k<MAX_VOICES. k \<noteq> find_free_voice (run evs (v2_create_instance loaded)) \<longrightarrow>
              voices (note_on (run evs (v2_create_instance loaded)) n vel) ! k
                = voices (run evs (v2_create_instance loaded)) ! k)
        \<and> active_voices (note_on (run evs (v2_create_instance loaded)) n vel) = MAX_VOICES
        \<and> active (voices (note_on (run evs (v2_create_instance loaded)) n vel)
                     ! find_free_voice (run evs (v2_create_instance loaded)))
        \<and> note_num (voices (note_on (run evs (v2_create_instance loaded)) n vel)
                       ! find_free_voice (run evs (v2_create_instance loaded))) = n
        \<and> \<not> isReleased (voices (note_on (run evs (v2_create_instance loaded)) n vel)
                           ! find_free_voice (run evs (v2_create_instance loaded))))
   \<and> voices (note_on (run evs (v2_create_instance loaded)) n vel)
       = (voices (run evs (v2_create_instance loaded)))
           [find_free_voice (run evs (v2_create_instance loaded)) :=
              assigned_voice (vcaType (run evs (v2_create_instance loaded))) n vel
                (voices (run evs (v2_create_instance loaded))
                   ! find_free_voice (run evs (v2_create_instance loaded)))]
   \<and> active (voices (note_on (run evs (v2_create_instance loaded)) n vel)
                ! find_free_voice (run evs (v2_create_instance loaded)))
   \<and> note_num (voices (note_on (run evs (v2_create_instance loaded)) n vel)
                  ! find_free_voice (run evs (v2_create_instance loaded))) = n
   \<and> (\<not> active (voices (run evs (v2_create_instance loaded))
                    ! find_free_voice (run evs (v2_create_instance loaded))) \<longrightarrow>
        active_voices (note_on (run evs (v2_create_instance loaded)) n vel)
          = Suc (active_voices (run evs (v2_create_instance loaded))))"
proof -
  let ?s = "run evs (v2_create_instance loaded)"
  let ?r = "find_free_voice ?s"
  have l: "length (voices ?s) = MAX_VOICES" by simp
  have r: "?r < length (voices ?s)" using find_free_voice_less[of ?s] by simp
  have v: "voices (note_on ?s n vel)
      = (voices ?s)[?r := assigned_voice (vcaType ?s) n vel (voices ?s ! ?r)]"
    by (rule voices_note_on)
  have land: "active (voices (note_on ?s n vel) ! ?r)"
    "note_num (voices (note_on ?s n vel) ! ?r) = n"
    "\<not> isReleased (voices (note_on ?s n vel) ! ?r)"
    using r by (simp_all add: v)
  have grow: "active_voices (note_on ?s n vel) = Suc (active_voices ?s)"
    if "\<not> active (voices ?s ! ?r)"
    unfolding active_voices_def v using that r
    by (rule count_active_update)
  have a: "active_voices ?s \<le> MAX_VOICES"
    using active_voices_le[of ?s] by simp
  have b: "active_voices (note_on ?s n vel) \<le> MAX_VOICES"
    using active_voices_le[of "note_on ?s n vel"] by simp
  have c: "find_free_voice ?s
          = (case find (\<lambda>i. isReleased (voices ?s ! i)) [0..<MAX_VOICES] of
               Some i \<Rightarrow> i | None \<Rightarrow> 0)
        \<and> (\<forall>k<MAX_VOICES. k \<noteq> find_free_voice ?s \<longrightarrow>
              voices (note_on ?s n vel) ! k = voices ?s ! k)
        \<and> active_voices (note_on ?s n vel) = MAX_VOICES"
    if all: "list_all active (voices ?s)"
  proof -
    have "list_all active (voices (note_on ?s n vel))"
      using all l find_free_voice_less[of ?s]
      by (simp add: voices_note_on list_all_length nth_list_update)
    then have "active_voices (note_on ?s n vel) = MAX_VOICES"
      by (simp add: active_voices_def filter_active_all)
    with find_free_voice_all_active[OF all l] show ?thesis
      by (simp add: voices_note_on)
  qed
  have m: "MAX_VOICES = 6" by (simp add: MAX_VOICES_def)
  from l m a b c land v grow show ?thesis by blast
qed


lemma note_on_fill:
  assumes v: "voices s = map (\<lambda>m. assigned_voice t m vel fresh_voice) ns
                 @ replicate (MAX_VOICES - length ns) fresh_voice"
    and n: "length ns < MAX_VOICES" and t: "vcaType s = t"
  shows "voices (note_on s n vel)
      = map (\<lambda>m. assigned_voice t m vel fresh_voice) (ns @ [n])
          @ replicate (MAX_VOICES - length (ns @ [n])) fresh_voice"
proof -
  let ?k = "length ns"
  have na: "\<not> active fresh_voice" by (simp add: fresh_voice_def new_voice_def)
  have "find (\<lambda>i. \<not> active (voices s ! i)) [0..<MAX_VOICES] = Some ?k"
    using n by (simp add: find_upt_Some v nth_append na)
  then have f: "find_free_voice s = ?k" by (simp add: find_free_voice_def)
  have r: "replicate (MAX_VOICES - ?k) fresh_voice
      = fresh_voice # replicate (MAX_VOICES - Suc ?k) fresh_voice"
    using n by (cases "MAX_VOICES - ?k") (simp_all add: Suc_diff_Suc)
  show ?thesis
    by (simp add: voices_note_on f t v nth_append list_update_append r)
qed

theorem polyphony_bounded_witness:
  "list_all active
     (voices (run [NoteOn 60 1, NoteOn 62 1, NoteOn 64 1, NoteOn 65 1, NoteOn 67 1,
                   NoteOn 69 1, NoteOff 64] (v2_create_instance [])))
   \<and> find_free_voice
       (run [NoteOn 60 1, NoteOn 62 1, NoteOn 64 1, NoteOn 65 1, NoteOn 67 1,
             NoteOn 69 1, NoteOff 64] (v2_create_instance [])) = 2
   \<and> active_voices
       (note_on (run [NoteOn 60 1, NoteOn 62 1, NoteOn 64 1, NoteOn 65 1, NoteOn 67 1,
                      NoteOn 69 1, NoteOff 64] (v2_create_instance [])) 71 1) = MAX_VOICES
   \<and> voices
       (note_on (run [NoteOn 60 1, NoteOn 62 1, NoteOn 64 1, NoteOn 65 1, NoteOn 67 1,
                      NoteOn 69 1, NoteOff 64] (v2_create_instance [])) 71 1) ! 0
       = assigned_voice 0 60 1 fresh_voice
   \<and> note_num (voices
       (note_on (run [NoteOn 60 1, NoteOn 62 1, NoteOn 64 1, NoteOn 65 1, NoteOn 67 1,
                      NoteOn 69 1, NoteOff 64] (v2_create_instance [])) 71 1) ! 2) = 71
   \<and> map note_num (voices
       (note_on (run [NoteOn 60 1, NoteOn 62 1, NoteOn 64 1, NoteOn 65 1, NoteOn 67 1,
                      NoteOn 69 1, NoteOff 64] (v2_create_instance [])) 71 1))
       = [60, 62, 71, 65, 67, 69]"
proof -
  let ?a = "\<lambda>m. assigned_voice 0 m 1 fresh_voice"
  let ?s0 = "v2_create_instance []"
  let ?s1 = "note_on ?s0 60 1"
  let ?s2 = "note_on ?s1 62 1"
  let ?s3 = "note_on ?s2 64 1"
  let ?s4 = "note_on ?s3 65 1"
  let ?s5 = "note_on ?s4 67 1"
  let ?s6 = "note_on ?s5 69 1"
  let ?s7 = "note_off ?s6 64"
  have run: "run [NoteOn 60 1, NoteOn 62 1, NoteOn 64 1, NoteOn 65 1, NoteOn 67 1,
                  NoteOn 69 1, NoteOff 64] ?s0 = ?s7"
    by (simp add: run_def)
  have v0: "voices ?s0 = map ?a [] @ replicate (MAX_VOICES - length ([]::int list)) fresh_voice"
    by (simp add: create_empty_scalars)
  have t0: "vcaType ?s0 = 0" by (simp add: create_empty_scalars)
  note v1 = note_on_fill[OF v0 _ t0, of 60]
  have v1': "voices ?s1 = map ?a [60] @ replicate (MAX_VOICES - length [60::int]) fresh_voice"
    using v1 by (simp add: MAX_VOICES_def)
  note v2 = note_on_fill[OF v1', of 62]
  have v2': "voices ?s2 = map ?a [60, 62] @ replicate (MAX_VOICES - length [60, 62::int]) fresh_voice"
    using v2 by (simp add: MAX_VOICES_def t0)
  note v3 = note_on_fill[OF v2', of 64]
  have v3': "voices ?s3 = map ?a [60, 62, 64]
      @ replicate (MAX_VOICES - length [60, 62, 64::int]) fresh_voice"
    using v3 by (simp add: MAX_VOICES_def t0)
  note v4 = note_on_fill[OF v3', of 65]
  have v4': "voices ?s4 = map ?a [60, 62, 64, 65]
      @ replicate (MAX_VOICES - length [60, 62, 64, 65::int]) fresh_voice"
    using v4 by (simp add: MAX_VOICES_def t0)
  note v5 = note_on_fill[OF v4', of 67]
  have v5': "voices ?s5 = map ?a [60, 62, 64, 65, 67]
      @ replicate (MAX_VOICES - length [60, 62, 64, 65, 67::int]) fresh_voice"
    using v5 by (simp add: MAX_VOICES_def t0)
  note v6 = note_on_fill[OF v5', of 69]
  have v6': "voices ?s6 = [?a 60, ?a 62, ?a 64, ?a 65, ?a 67, ?a 69]"
    using v6 by (simp add: MAX_VOICES_def t0)
  have "find (note_off_match ?s6 64) [0..<MAX_VOICES] = Some 2"
    by (simp add: find_upt_Some note_off_match_def v6' MAX_VOICES_def less_Suc_eq
        eval_nat_numeral)
  from voices_note_off_Some[OF this]
  have v7: "voices ?s7
      = [?a 60, ?a 62, on_current_envelope env_noteOff (?a 64), ?a 65, ?a 67, ?a 69]"
    by (simp add: v6')
  have all: "list_all active (voices ?s7)"
    by (simp add: v7)
  have "find (\<lambda>i. isReleased (voices ?s7 ! i)) [0..<MAX_VOICES] = Some 2"
    by (simp add: find_upt_Some v7 MAX_VOICES_def less_Suc_eq eval_nat_numeral
        isReleased_current released_after_noteOff)
       (simp add: isReleased_current[symmetric])
  with find_free_voice_all_active[OF all] have f: "find_free_voice ?s7 = 2"
    by simp
  note w = polyphony_bounded[of "[NoteOn 60 1, NoteOn 62 1, NoteOn 64 1, NoteOn 65 1,
      NoteOn 67 1, NoteOn 69 1, NoteOff 64]" "[]" 71 1, unfolded run]
  from w all have c: "active_voices (note_on ?s7 71 1) = MAX_VOICES" by blast
  from w all f have "voices (note_on ?s7 71 1) ! 0 = voices ?s7 ! 0"
    by (simp add: MAX_VOICES_def)
  then have d: "voices (note_on ?s7 71 1) ! 0 = ?a 60" by (simp add: v7)
  from w all have "note_num (voices (note_on ?s7 71 1) ! find_free_voice ?s7) = 71"
    by blast
  then have e: "note_num (voices (note_on ?s7 71 1) ! 2) = 71"
    unfolding f .
  from w have "voices (note_on ?s7 71 1)
      = (voices ?s7)[find_free_voice ?s7 :=
           assigned_voice (vcaType ?s7) 71 1 (voices ?s7 ! find_free_voice ?s7)]"
    by blast
  then have g: "map note_num (voices (note_on ?s7 71 1)) = [60, 62, 71, 65, 67, 69]"
    unfolding f by (simp add: v7)
  from all f c d e g show ?thesis unfolding run by blast
qed

subsection \<open>C5: pitch bend\<close>







subsection \<open>The parameter store under \<open>apply_param\<close>\<close>

lemma params_apply_param:
  "params (apply_param s i v)
     = (if 0 \<le> i \<and> i < kHeraNumParameters then (params s)[nat i := v] else params s)"
  by (simp add: apply_param_def Let_def on_voices_def)

lemma length_params_apply_param [simp]:
  "length (params (apply_param s i v)) = length (params s)"
  by (simp add: params_apply_param)

lemma apply_param_keeps [simp]:
  "octave_transpose (apply_param s i v) = octave_transpose s"
  "current_preset (apply_param s i v) = current_preset s"
  "preset_count (apply_param s i v) = preset_count s"
  "presets (apply_param s i v) = presets s"
  "volume (apply_param s i v) = volume s"
  by (simp_all add: apply_param_def Let_def on_voices_def)

lemma smoothCutoff_apply_param:
  "smoothCutoff (apply_param s i v)
     = (if i = kHeraParamVCFCutoff then setTargetValue v (smoothCutoff s) else smoothCutoff s)"
  by (simp add: apply_param_def Let_def on_voices_def)

lemma clamp_param_range:
  "min_val d \<le> max_val d \<Longrightarrow> min_val d \<le> clamp_param d x \<and> clamp_param d x \<le> max_val d"
  by (simp add: clamp_param_def Let_def)

lemma clamp_param_id:
  "min_val d \<le> x \<Longrightarrow> x \<le> max_val d \<Longrightarrow> clamp_param d x = x"
  by (simp add: clamp_param_def Let_def)

lemma catalog_ranges: "d \<in> set g_shadow_params \<Longrightarrow> min_val d \<le> max_val d"
  by (auto simp: g_shadow_params_def pdef_def)

lemma catalog_indices:
  "d \<in> set g_shadow_params \<Longrightarrow> 0 \<le> pd_index d \<and> pd_index d < kHeraNumParameters"
  by (auto simp: g_shadow_params_def pdef_def)

lemma catalog_index_list:
  "map pd_index g_shadow_params
     = [4, 5, 6, 7, 2, 3, 8, 9, 10, 11, 12, 13, 14, 15, 0, 1, 16, 17, 18, 19, 21, 22, 20,
        23, 24, 25]"
  by (simp add: g_shadow_params_def pdef_def)

lemma catalog_key_list:
  "map pd_key g_shadow_params
     = [''saw_level'', ''pulse_level'', ''sub_level'', ''noise_level'', ''pwm_depth'',
        ''pwm_mod'', ''pitch_range'', ''pitch_mod'', ''vcf_cutoff'', ''vcf_resonance'',
        ''vcf_env'', ''vcf_lfo'', ''vcf_key'', ''vcf_bend'', ''vca_depth'', ''vca_type'',
        ''attack'', ''decay'', ''sustain'', ''release'', ''lfo_rate'', ''lfo_delay'',
        ''lfo_trigger'', ''hpf'', ''chorus_i'', ''chorus_ii'']"
  by (simp add: g_shadow_params_def pdef_def)

lemma catalog_indices_distinct: "distinct (map pd_index g_shadow_params)"
  unfolding catalog_index_list by simp

lemma catalog_keys_distinct: "distinct (map pd_key g_shadow_params)"
  unfolding catalog_key_list by simp

lemma catalog_covers_indices:
  "pd_index ` set g_shadow_params = {0..<kHeraNumParameters}"
proof (rule card_subset_eq)
  show "finite {0..<kHeraNumParameters}" by simp
  show "pd_index ` set g_shadow_params \<subseteq> {0..<kHeraNumParameters}"
    using catalog_indices by auto
  have "card (pd_index ` set g_shadow_params) = length (map pd_index g_shadow_params)"
    using distinct_card[OF catalog_indices_distinct] by simp
  then show "card (pd_index ` set g_shadow_params) = card {0..<kHeraNumParameters}"
    by (simp add: g_shadow_params_def)
qed

subsection \<open>C4: which writes are clamped\<close>

text \<open>
  The named-parameter interface and the parameter loop of state restore clamp the
  value to the catalog range before \<open>apply_param\<close> stores and distributes it.
\<close>

lemma set_named_param_clamped:
  assumes "find (\<lambda>d. pd_key d = key) g_shadow_params = Some d"
    and "length (params s) = nat kHeraNumParameters"
  shows "params (set_named_param s key val) ! nat (pd_index d) = clamp_param d (atof val)
    \<and> min_val d \<le> params (set_named_param s key val) ! nat (pd_index d)
    \<and> params (set_named_param s key val) ! nat (pd_index d) \<le> max_val d"
proof -
  from assms(1) have d: "d \<in> set g_shadow_params"
    by (auto simp: find_Some_iff)
  from catalog_indices[OF d] assms(2) have "nat (pd_index d) < length (params s)"
    by linarith
  with catalog_indices[OF d]
  have "params (set_named_param s key val) ! nat (pd_index d) = clamp_param d (atof val)"
    by (simp add: set_named_param_def assms(1) params_apply_param)
  with clamp_param_range[OF catalog_ranges[OF d]] show ?thesis by simp
qed

lemma params_fold_apply_param:
  "length (params s) = n \<Longrightarrow> k \<le> n \<Longrightarrow> n \<le> nat kHeraNumParameters \<Longrightarrow>
   params (fold (\<lambda>i s. apply_param s (int i) (h i)) [0..<k] s)
     = map h [0..<k] @ drop k (params s)"
proof (induction k)
  case 0
  then show ?case by simp
next
  case (Suc k)
  then have k: "k < length (params s)" by simp
  from Suc have "params (fold (\<lambda>i s. apply_param s (int i) (h i)) [0..<Suc k] s)
      = (map h [0..<k] @ drop k (params s))[k := h k]"
    by (simp add: params_apply_param)
  also have "\<dots> = map h [0..<k] @ (drop k (params s))[0 := h k]"
    by (simp add: list_update_append)
  also have "drop k (params s) = params s ! k # drop (Suc k) (params s)"
    using k by (simp add: Cons_nth_drop_Suc)
  finally show ?case by simp
qed

lemma smoothCutoff_fold_step:
  "smoothCutoff (fold (\<lambda>i s. apply_param s (int i) (h i)) [0..<Suc k] s)
     = (if k = 10
        then setTargetValue (h k)
               (smoothCutoff (fold (\<lambda>i s. apply_param s (int i) (h i)) [0..<k] s))
        else smoothCutoff (fold (\<lambda>i s. apply_param s (int i) (h i)) [0..<k] s))"
  by (simp add: smoothCutoff_apply_param)

lemma smoothCutoff_fold_apply_param:
  "10 < k \<Longrightarrow>
   sm_target (smoothCutoff (fold (\<lambda>i s. apply_param s (int i) (h i)) [0..<k] s)) = h 10"
proof (induction k)
  case 0
  then show ?case by simp
next
  case (Suc k)
  show ?case
  proof (cases "k = 10")
    case True
    show ?thesis
      unfolding smoothCutoff_fold_step using True by (simp add: setTargetValue_def)
  next
    case False
    with Suc show ?thesis
      unfolding smoothCutoff_fold_step by simp
  qed
qed

lemma length_params_fold_apply_param [simp]:
  "length (params (fold (\<lambda>i s. apply_param s (int i) (h i)) xs s)) = length (params s)"
  by (induction xs arbitrary: s) simp_all

lemma fold_apply_param_keeps [simp]:
  "octave_transpose (fold (\<lambda>i s. apply_param s (int i) (h i)) xs s) = octave_transpose s"
  "current_preset (fold (\<lambda>i s. apply_param s (int i) (h i)) xs s) = current_preset s"
  "preset_count (fold (\<lambda>i s. apply_param s (int i) (h i)) xs s) = preset_count s"
  "presets (fold (\<lambda>i s. apply_param s (int i) (h i)) xs s) = presets s"
  "volume (fold (\<lambda>i s. apply_param s (int i) (h i)) xs s) = volume s"
  by (induction xs arbitrary: s) simp_all

lemma apply_preset_keeps [simp]:
  "octave_transpose (apply_preset s i) = octave_transpose s"
  "preset_count (apply_preset s i) = preset_count s"
  "presets (apply_preset s i) = presets s"
  "volume (apply_preset s i) = volume s"
  by (simp_all add: apply_preset_def Let_def)

lemma current_preset_apply_preset:
  "current_preset (apply_preset s i)
     = (if 0 \<le> i \<and> i < preset_count s then i else current_preset s)"
  by (simp add: apply_preset_def Let_def)

lemma length_params_apply_preset [simp]:
  "length (params (apply_preset s i)) = length (params s)"
  by (simp add: apply_preset_def Let_def)

lemma length_params_create [simp]:
  "length (params (v2_create_instance loaded)) = nat kHeraNumParameters"
  by (simp add: v2_create_instance_def Let_def load_presets_def new_instance_def)

lemma params_apply_preset:
  assumes "0 \<le> i" and "i < preset_count s" and "length (params s) = nat kHeraNumParameters"
  shows "params (apply_preset s i) = map (\<lambda>k. p_values (presets s ! nat i) ! k) [0..<26]"
    and "sm_target (smoothCutoff (apply_preset s i)) = p_values (presets s ! nat i) ! 10"
  using assms
  by (simp_all add: apply_preset_def Let_def params_fold_apply_param
      smoothCutoff_fold_apply_param)

text \<open>
  Claim C4. Every write into the parameter store is clamped to the catalog range of
  its parameter, also a write made by applying a preset. Evaluated on an instance
  created with the preset \<open>hot_preset\<close>, whose cutoff value is 5: creation applies
  preset 0, and the store and the cutoff smoother then hold 5, outside the catalog
  range \<open>[0, 1]\<close> of \<open>vcf_cutoff\<close>. Selecting the preset through the parameter
  interface gives the same. \<open>apply_preset\<close> hands each preset value to \<open>apply_param\<close>
  as it is, while the two sibling paths clamp first.
\<close>

theorem preset_values_not_clamped:
  "params (v2_create_instance [hot_preset]) ! nat kHeraParamVCFCutoff = 5
   \<and> sm_target (smoothCutoff (v2_create_instance [hot_preset])) = 5
   \<and> params (v2_set_param (v2_create_instance [hot_preset]) ''preset'' (number_text 0))
        ! nat kHeraParamVCFCutoff = 5
   \<and> find (\<lambda>d. pd_index d = kHeraParamVCFCutoff) g_shadow_params
        = Some (pdef ''vcf_cutoff'' ''VCF Cutoff'' PARAM_TYPE_FLOAT kHeraParamVCFCutoff 0 1)"
proof -
  let ?i1 = "fold (\<lambda>i s. apply_param s (int i) (g_param_defaults ! i))
               [0..<nat kHeraNumParameters] new_instance"
  let ?i2 = "(load_presets [hot_preset] ?i1)\<lparr>current_preset := 0\<rparr>"
  have c: "v2_create_instance [hot_preset] = apply_preset ?i2 0"
    by (simp add: v2_create_instance_def Let_def load_presets_def MAX_PRESETS_def)
  have pc: "0 < preset_count ?i2" and pr: "presets ?i2 ! nat 0 = hot_preset"
    and len: "length (params ?i2) = nat kHeraNumParameters"
    by (simp_all add: load_presets_def MAX_PRESETS_def new_instance_def)
  have h: "p_values hot_preset ! 10 = 5"
    by (simp add: hot_preset_def g_param_defaults_def)
  note ap = params_apply_preset[OF order_refl pc len, unfolded pr]
  have a: "params (v2_create_instance [hot_preset]) ! nat kHeraParamVCFCutoff = 5"
    unfolding c ap(1) using h by simp
  have b: "sm_target (smoothCutoff (v2_create_instance [hot_preset])) = 5"
    unfolding c ap(2) using h by simp
  let ?s = "v2_create_instance [hot_preset]"
  let ?t = "(all_notes_off ?s)\<lparr>current_preset := 0\<rparr>"
  have pcs: "0 < preset_count ?t" and prs: "presets ?t ! nat 0 = hot_preset"
    and lens: "length (params ?t) = nat kHeraNumParameters"
    unfolding c
    by (simp_all add: all_notes_off_def load_presets_def MAX_PRESETS_def new_instance_def)
  have "v2_set_param ?s ''preset'' (number_text 0) = apply_preset ?t 0"
    using pcs by (simp add: v2_set_param_def number_text_def c_int_def Let_def all_notes_off_def)
  then have d: "params (v2_set_param ?s ''preset'' (number_text 0)) ! nat kHeraParamVCFCutoff = 5"
    using h by (simp add: params_apply_preset(1)[OF order_refl pcs lens, unfolded prs])
  have e: "find (\<lambda>d. pd_index d = kHeraParamVCFCutoff) g_shadow_params
        = Some (pdef ''vcf_cutoff'' ''VCF Cutoff'' PARAM_TYPE_FLOAT kHeraParamVCFCutoff 0 1)"
    by (simp add: g_shadow_params_def pdef_def)
  from a b d e show ?thesis by blast
qed

subsection \<open>C9: serialization and restore\<close>

lemma map_of_catalog:
  "distinct (map pd_key ds) \<Longrightarrow> d \<in> set ds \<Longrightarrow>
   map_of (map (\<lambda>d. (pd_key d, g d)) ds) (pd_key d) = Some (g d)"
  by (induction ds) (auto simp: rev_image_eqI)

lemma catalog_keys_not_header:
  "d \<in> set g_shadow_params \<Longrightarrow>
   pd_key d \<noteq> ''preset'' \<and> pd_key d \<noteq> ''volume'' \<and> pd_key d \<noteq> ''octave_transpose''"
  by (auto simp: g_shadow_params_def pdef_def)

lemma json_serialized:
  "json_get_number (state_text s) ''preset'' = Some (real_of_int (current_preset s))"
  "json_get_number (state_text s) ''octave_transpose'' = Some (real_of_int (octave_transpose s))"
  "d \<in> set g_shadow_params \<Longrightarrow>
   json_get_number (state_text s) (pd_key d) = Some (fmt4 (params s ! nat (pd_index d)))"
  using catalog_keys_not_header[of d]
  by (simp_all add: json_get_number_def state_text_def serialize_state_def
      map_of_catalog[OF catalog_keys_distinct])

lemma c_int_of_int [simp]: "c_int (real_of_int k) = k"
  by (simp add: c_int_def)

text \<open>The parameter loop of \<open>restore_state\<close>, for values \<open>f d\<close> found for every entry.\<close>

lemma params_restore_fold:
  assumes "distinct (map pd_index ds)" and "d \<in> set ds"
    and "\<forall>e\<in>set ds. 0 \<le> pd_index e \<and> pd_index e < kHeraNumParameters"
    and "length (params s) = nat kHeraNumParameters"
  shows "params (fold (\<lambda>e s. apply_param s (pd_index e) (f e)) ds s) ! nat (pd_index d) = f d"
  using assms
proof (induction ds arbitrary: s)
  case Nil
  then show ?case by simp
next
  case (Cons e ds)
  have len: "length (params (apply_param s (pd_index e) (f e))) = nat kHeraNumParameters"
    using Cons.prems(4) by simp
  show ?case
  proof (cases "d \<in> set ds")
    case True
    with Cons.IH[OF _ True _ len] Cons.prems show ?thesis by simp
  next
    case False
    with Cons.prems have de: "d = e" by simp
    have keep: "params (fold (\<lambda>e s. apply_param s (pd_index e) (f e)) ds t) ! k = params t ! k"
      if "int k \<notin> pd_index ` set ds" for t k
      using that
    proof (induction ds arbitrary: t)
      case Nil
      then show ?case by simp
    next
      case (Cons a ds)
      then have "params (apply_param t (pd_index a) (f a)) ! k = params t ! k"
        by (auto simp: params_apply_param)
      with Cons show ?case by simp
    qed
    from Cons.prems(1,3) de have "int (nat (pd_index d)) \<notin> pd_index ` set ds"
      by auto
    moreover from Cons.prems(3,4) de have "nat (pd_index d) < length (params s)"
      by (simp add: nat_less_iff)
    ultimately show ?thesis
      using Cons.prems(3) de by (simp add: keep params_apply_param)
  qed
qed

lemma restore_fold_keeps [simp]:
  "octave_transpose (fold (\<lambda>e s. apply_param s (pd_index e) (f e)) ds s) = octave_transpose s"
  "current_preset (fold (\<lambda>e s. apply_param s (pd_index e) (f e)) ds s) = current_preset s"
  "length (params (fold (\<lambda>e s. apply_param s (pd_index e) (f e)) ds s)) = length (params s)"
  by (induction ds arbitrary: s) simp_all

lemma restore_fold_serialized:
  "set ds \<subseteq> set g_shadow_params \<Longrightarrow>
   fold (\<lambda>d t. case json_get_number (state_text s) (pd_key d) of
                 None \<Rightarrow> t
               | Some fval \<Rightarrow> apply_param t (pd_index d) (clamp_param d fval)) ds t
   = fold (\<lambda>d t. apply_param t (pd_index d)
                   (clamp_param d (fmt4 (params s ! nat (pd_index d))))) ds t"
  by (induction ds arbitrary: t) (simp_all add: json_serialized)

lemma restore_snapshot:
  assumes "length (params t) = nat kHeraNumParameters"
  shows "restore_state t (state_text s)
     = fold (\<lambda>d t. apply_param t (pd_index d)
                     (clamp_param d (fmt4 (params s ! nat (pd_index d)))))
         g_shadow_params
         ((if 0 \<le> current_preset s \<and> current_preset s < preset_count t
           then apply_preset (t\<lparr>current_preset := current_preset s\<rparr>) (current_preset s)
           else t)
          \<lparr>octave_transpose := clamp_octave (octave_transpose s)\<rparr>)"
  by (simp add: restore_state_def json_serialized Let_def restore_fold_serialized)


lemma length_params_restore_fold:
  "length (params (fold (\<lambda>d s. case g d of None \<Rightarrow> s
                                | Some fval \<Rightarrow> apply_param s (pd_index d) (c d fval)) ds s))
     = length (params s)"
  by (induction ds arbitrary: s) (simp_all split: option.splits)

lemma length_params_restore_state [simp]:
  "length (params (restore_state s val)) = length (params s)"
  by (simp add: restore_state_def Let_def length_params_restore_fold split: option.splits)

lemma length_params_set_param [simp]:
  "length (params (v2_set_param s key val)) = length (params s)"
  by (simp add: v2_set_param_def set_named_param_def Let_def all_notes_off_def
      split: option.splits)

lemma restore_snapshot_param:
  assumes "length (params t) = nat kHeraNumParameters" and "d \<in> set g_shadow_params"
  shows "params (v2_set_param t ''state'' (state_text s)) ! nat (pd_index d)
     = clamp_param d (fmt4 (params s ! nat (pd_index d)))"
proof -
  have "v2_set_param t ''state'' (state_text s) = restore_state t (state_text s)"
    by (simp add: v2_set_param_def)
  moreover have "\<forall>e\<in>set g_shadow_params. 0 \<le> pd_index e \<and> pd_index e < kHeraNumParameters"
    using catalog_indices by blast
  ultimately show ?thesis
    using assms
    by (simp add: restore_snapshot
        params_restore_fold[OF catalog_indices_distinct,
          where f = "\<lambda>d. clamp_param d (fmt4 (params s ! nat (pd_index d)))"])
qed

lemma restore_snapshot_scalars:
  assumes "length (params t) = nat kHeraNumParameters"
  shows "octave_transpose (v2_set_param t ''state'' (state_text s))
       = clamp_octave (octave_transpose s)"
    and "current_preset (v2_set_param t ''state'' (state_text s))
       = (if 0 \<le> current_preset s \<and> current_preset s < preset_count t
          then current_preset s else current_preset t)"
  using assms
  by (simp_all add: v2_set_param_def restore_snapshot current_preset_apply_preset)

lemma set_vcf_cutoff:
  assumes "length (params s) = nat kHeraNumParameters" and "0 \<le> x" and "x \<le> 1"
  shows "params (v2_set_param s ''vcf_cutoff'' (number_text x)) ! 10 = x"
proof -
  have f: "find (\<lambda>d. pd_key d = ''vcf_cutoff'') g_shadow_params
      = Some (pdef ''vcf_cutoff'' ''VCF Cutoff'' PARAM_TYPE_FLOAT kHeraParamVCFCutoff 0 1)"
    by (simp add: g_shadow_params_def pdef_def)
  have "v2_set_param s ''vcf_cutoff'' (number_text x)
      = set_named_param s ''vcf_cutoff'' (number_text x)"
    by (simp add: v2_set_param_def)
  with set_named_param_clamped[OF f assms(1), of "number_text x"] assms(2,3)
  show ?thesis
    by (simp add: pdef_def clamp_param_def number_text_def)
qed

lemma vcf_cutoff_in_catalog:
  "pdef ''vcf_cutoff'' ''VCF Cutoff'' PARAM_TYPE_FLOAT kHeraParamVCFCutoff 0 1
     \<in> set g_shadow_params"
  by (simp add: g_shadow_params_def)

lemma fmt4_examples:
  "fmt4 (1 / 25000) = 0" "fmt4 (1 / 4) = 1 / 4" "fmt4 (1 / 32) = 39 / 1250"
  "fmt4 (5 / 32) = 781 / 5000"
  by (simp_all add: fmt4_def round_half_even_def Let_def)

text \<open>The printed number is a multiple of \<open>1/10000\<close> within \<open>1/20000\<close> of the value.\<close>

lemma fmt4_close: "\<bar>fmt4 x - x\<bar> \<le> 1 / 20000"
proof -
  let ?y = "x * 10000"
  have "\<bar>real_of_int (round_half_even ?y) - ?y\<bar> \<le> 1 / 2"
    unfolding round_half_even_def Let_def by (simp; linarith)
  then have "\<bar>(real_of_int (round_half_even ?y) - ?y) / 10000\<bar> \<le> (1 / 2) / 10000"
    by (simp add: field_simps)
  then show ?thesis
    by (simp add: fmt4_def field_simps)
qed


text \<open>
  Claim C9, as stated: restoring the snapshot of an engine gives back its full
  parameter set. It fails for a parameter value with more than four decimals: the
  snapshot prints parameters with \<open>%.4f\<close>. Here the cutoff is set to \<open>1/25000 = 0.00004\<close>
  through the parameter interface; the engine's own snapshot restores it as 0.
\<close>

theorem snapshot_round_trip_counterexample:
  "params (v2_set_param
             (v2_set_param (v2_create_instance []) ''vcf_cutoff'' (number_text (1 / 25000)))
             ''state''
             (state_text
                (v2_set_param (v2_create_instance []) ''vcf_cutoff''
                   (number_text (1 / 25000))))) ! nat kHeraParamVCFCutoff
   \<noteq> params (v2_set_param (v2_create_instance []) ''vcf_cutoff''
               (number_text (1 / 25000))) ! nat kHeraParamVCFCutoff"
proof -
  let ?s = "v2_set_param (v2_create_instance []) ''vcf_cutoff'' (number_text (1 / 25000))"
  have p: "params ?s ! 10 = 1 / 25000"
    by (rule set_vcf_cutoff) simp_all
  have l: "length (params ?s) = nat kHeraNumParameters" by simp
  from restore_snapshot_param[OF l vcf_cutoff_in_catalog, of ?s]
  have "params (v2_set_param ?s ''state'' (state_text ?s)) ! 10 = 0"
    by (simp add: pdef_def p fmt4_examples clamp_param_def)
  with p show ?thesis by simp
qed

text \<open>
  Claim C9, amended. Restoring a snapshot taken from \<open>s\<close> into an engine \<open>t\<close> sets
  every catalog parameter to the snapshot's number for it, which is the value in \<open>s\<close>
  rounded to four decimals (to the nearest, a tie to the even last digit, so never
  further than \<open>1/20000\<close> from the value), clamped to the catalog range; a value of
  \<open>s\<close> that has at most four decimals and lies in its range is restored exactly. The octave transpose
  becomes that of \<open>s\<close> (clamped to \<open>[-3, 3]\<close>, where the engine keeps it anyway), and
  the preset index becomes that of \<open>s\<close> when it is a valid index of \<open>t\<close>'s bank and
  stays as it is otherwise. The snapshot has the keys \<open>preset\<close>, \<open>volume\<close>,
  \<open>octave_transpose\<close> and the key of every catalog entry, each exactly once, and the
  catalog has one entry for each of the 26 parameter indices.
\<close>

theorem snapshot_restore:
  assumes "length (params t) = nat kHeraNumParameters"
  shows "(\<forall>d\<in>set g_shadow_params.
            params (v2_set_param t ''state'' (state_text s)) ! nat (pd_index d)
              = clamp_param d (fmt4 (params s ! nat (pd_index d))))
    \<and> (\<forall>d\<in>set g_shadow_params.
            fmt4 (params s ! nat (pd_index d)) = params s ! nat (pd_index d)
            \<and> min_val d \<le> params s ! nat (pd_index d)
            \<and> params s ! nat (pd_index d) \<le> max_val d
          \<longrightarrow> params (v2_set_param t ''state'' (state_text s)) ! nat (pd_index d)
                = params s ! nat (pd_index d))
    \<and> octave_transpose (v2_set_param t ''state'' (state_text s))
         = clamp_octave (octave_transpose s)
    \<and> (- 3 \<le> octave_transpose s \<and> octave_transpose s \<le> 3
          \<longrightarrow> octave_transpose (v2_set_param t ''state'' (state_text s)) = octave_transpose s)
    \<and> current_preset (v2_set_param t ''state'' (state_text s))
         = (if 0 \<le> current_preset s \<and> current_preset s < preset_count t
            then current_preset s else current_preset t)
    \<and> map fst (serialize_state s)
         = ''preset'' # ''volume'' # ''octave_transpose'' # map pd_key g_shadow_params
    \<and> distinct (map fst (serialize_state s))
    \<and> pd_index ` set g_shadow_params = {0..<kHeraNumParameters}
    \<and> (\<forall>x. \<bar>fmt4 x - x\<bar> \<le> 1 / 20000)"
proof -
  let ?t' = "v2_set_param t ''state'' (state_text s)"
  have a: "\<forall>d\<in>set g_shadow_params.
            params ?t' ! nat (pd_index d) = clamp_param d (fmt4 (params s ! nat (pd_index d)))"
    using restore_snapshot_param[OF assms] by blast
  have b: "\<forall>d\<in>set g_shadow_params.
            fmt4 (params s ! nat (pd_index d)) = params s ! nat (pd_index d)
            \<and> min_val d \<le> params s ! nat (pd_index d)
            \<and> params s ! nat (pd_index d) \<le> max_val d
          \<longrightarrow> params ?t' ! nat (pd_index d) = params s ! nat (pd_index d)"
    using a by (simp add: clamp_param_id)
  have c: "octave_transpose ?t' = clamp_octave (octave_transpose s)"
    by (rule restore_snapshot_scalars(1)[OF assms])
  have d: "- 3 \<le> octave_transpose s \<and> octave_transpose s \<le> 3
          \<longrightarrow> octave_transpose ?t' = octave_transpose s"
    unfolding c by (simp add: clamp_octave_def Let_def)
  have e: "current_preset ?t'
         = (if 0 \<le> current_preset s \<and> current_preset s < preset_count t
            then current_preset s else current_preset t)"
    by (rule restore_snapshot_scalars(2)[OF assms])
  have f: "map fst (serialize_state s)
         = ''preset'' # ''volume'' # ''octave_transpose'' # map pd_key g_shadow_params"
    by (simp add: serialize_state_def comp_def)
  have g: "distinct (map fst (serialize_state s))"
    unfolding f catalog_key_list by simp
  from a b c d e f g catalog_covers_indices fmt4_close show ?thesis by blast
qed

theorem snapshot_restore_witness:
  "length (params (v2_set_param (v2_create_instance []) ''vcf_cutoff'' (number_text (1 / 4))))
     = nat kHeraNumParameters
   \<and> pdef ''vcf_cutoff'' ''VCF Cutoff'' PARAM_TYPE_FLOAT kHeraParamVCFCutoff 0 1
       \<in> set g_shadow_params
   \<and> params (v2_set_param (v2_create_instance []) ''vcf_cutoff'' (number_text (1 / 4))) ! 10
       = 1 / 4
   \<and> fmt4 (1 / 4) = 1 / 4
   \<and> params (v2_set_param
               (v2_set_param (v2_create_instance []) ''vcf_cutoff'' (number_text (1 / 4)))
               ''state''
               (state_text (v2_set_param (v2_create_instance []) ''vcf_cutoff''
                              (number_text (1 / 4))))) ! 10 = 1 / 4
   \<and> octave_transpose
       (v2_set_param
          (v2_set_param (v2_create_instance []) ''vcf_cutoff'' (number_text (1 / 4)))
          ''state''
          (state_text (v2_set_param (v2_create_instance []) ''vcf_cutoff''
                         (number_text (1 / 4))))) = 0
   \<and> length (params (v2_set_param (v2_create_instance []) ''vcf_cutoff''
                         (number_text (1 / 32)))) = nat kHeraNumParameters
   \<and> params (v2_set_param (v2_create_instance []) ''vcf_cutoff'' (number_text (1 / 32))) ! 10
       = 1 / 32
   \<and> params (v2_set_param
               (v2_set_param (v2_create_instance []) ''vcf_cutoff'' (number_text (1 / 32)))
               ''state''
               (state_text (v2_set_param (v2_create_instance []) ''vcf_cutoff''
                              (number_text (1 / 32))))) ! 10 = 39 / 1250"
proof -
  let ?u = "v2_set_param (v2_create_instance []) ''vcf_cutoff'' (number_text (1 / 32))"
  have lu: "length (params ?u) = nat kHeraNumParameters" by simp
  have pu: "params ?u ! 10 = 1 / 32"
    by (rule set_vcf_cutoff) simp_all
  from snapshot_restore[OF lu, of ?u] vcf_cutoff_in_catalog
  have "params (v2_set_param ?u ''state'' (state_text ?u))
          ! nat (pd_index (pdef ''vcf_cutoff'' ''VCF Cutoff'' PARAM_TYPE_FLOAT
                             kHeraParamVCFCutoff 0 1))
      = clamp_param (pdef ''vcf_cutoff'' ''VCF Cutoff'' PARAM_TYPE_FLOAT
                       kHeraParamVCFCutoff 0 1)
          (fmt4 (params ?u ! nat (pd_index (pdef ''vcf_cutoff'' ''VCF Cutoff''
                   PARAM_TYPE_FLOAT kHeraParamVCFCutoff 0 1))))"
    by blast
  then have ru: "params (v2_set_param ?u ''state'' (state_text ?u)) ! 10 = 39 / 1250"
    by (simp add: pdef_def pu fmt4_examples clamp_param_def)
  let ?s = "v2_set_param (v2_create_instance []) ''vcf_cutoff'' (number_text (1 / 4))"
  let ?d = "pdef ''vcf_cutoff'' ''VCF Cutoff'' PARAM_TYPE_FLOAT kHeraParamVCFCutoff 0 1"
  have l: "length (params ?s) = nat kHeraNumParameters" by simp
  have p: "params ?s ! 10 = 1 / 4"
    by (rule set_vcf_cutoff) simp_all
  have o: "octave_transpose ?s = 0"
    by (simp add: v2_set_param_def set_named_param_def create_empty_scalars
        split: option.splits)
  note w = snapshot_restore[OF l, of ?s]
  from w vcf_cutoff_in_catalog
  have "fmt4 (params ?s ! nat (pd_index ?d)) = params ?s ! nat (pd_index ?d)
            \<and> min_val ?d \<le> params ?s ! nat (pd_index ?d)
            \<and> params ?s ! nat (pd_index ?d) \<le> max_val ?d
          \<longrightarrow> params (v2_set_param ?s ''state'' (state_text ?s)) ! nat (pd_index ?d)
                = params ?s ! nat (pd_index ?d)"
    by blast
  then have r: "params (v2_set_param ?s ''state'' (state_text ?s)) ! 10 = 1 / 4"
    by (simp add: pdef_def p fmt4_examples)
  from w have "octave_transpose (v2_set_param ?s ''state'' (state_text ?s))
      = clamp_octave (octave_transpose ?s)"
    by blast
  then have q: "octave_transpose (v2_set_param ?s ''state'' (state_text ?s)) = 0"
    by (simp add: o clamp_octave_def)
  from l vcf_cutoff_in_catalog p fmt4_examples(2) r q lu pu ru show ?thesis by blast
qed

subsection \<open>The modulation loops\<close>

lemma smoothed_Suc:
  "fst (gnv (((\<lambda>t. snd (gnv t)) ^^ n) s)) = smoothed gnv s n"
  by (simp add: smoothed_def)

lemma fill_nth:
  "n \<le> length l \<Longrightarrow> i < n \<Longrightarrow> fold (\<lambda>i l. l[i := f i]) [0..<n] l ! i = f i"
  "length (fold (\<lambda>i l. l[i := f i]) [0..<n] l) = length l"
  by (induction n) (auto simp: nth_list_update less_Suc_eq)

lemma detune_fold_inst:
  "fst (fold (detune_step gnv) [0..<n] st)
     = (fst st)\<lparr>smoothPitchModDepth :=
                  ((\<lambda>t. snd (gnv t)) ^^ n) (smoothPitchModDepth (fst st))\<rparr>"
  by (induction n) (simp_all add: detune_step_def Let_def)

lemma detune_fold_bufs:
  "\<exists>db. snd (fold (detune_step gnv) [0..<n] st) = (snd st)\<lparr>detuneBuffer := db\<rparr>
        \<and> length db = length (detuneBuffer (snd st))
        \<and> (\<forall>i<n. i < length db \<longrightarrow>
              db ! i = pitchFactor (fst st)
                 * 2 powr (lfoBuffer (snd st) ! i * 0.25
                            * smoothed gnv (smoothPitchModDepth (fst st)) i))"
proof (induction n)
  case 0
  show ?case by (rule exI[of _ "detuneBuffer (snd st)"]) simp
next
  case (Suc n)
  then obtain db where db: "snd (fold (detune_step gnv) [0..<n] st) = (snd st)\<lparr>detuneBuffer := db\<rparr>"
    "length db = length (detuneBuffer (snd st))"
    "\<forall>i<n. i < length db \<longrightarrow>
              db ! i = pitchFactor (fst st)
                 * 2 powr (lfoBuffer (snd st) ! i * 0.25
                            * smoothed gnv (smoothPitchModDepth (fst st)) i)"
    by blast
  let ?v = "pitchFactor (fst st)
       * 2 powr (lfoBuffer (snd st) ! n * 0.25 * smoothed gnv (smoothPitchModDepth (fst st)) n)"
  show ?case
  proof (rule exI[of _ "db[n := ?v]"], intro conjI allI impI)
    show "snd (fold (detune_step gnv) [0..<Suc n] st) = (snd st)\<lparr>detuneBuffer := db[n := ?v]\<rparr>"
      by (simp add: detune_step_def Let_def db(1) detune_fold_inst smoothed_Suc)
    show "length (db[n := ?v]) = length (detuneBuffer (snd st))"
      by (simp add: db(2))
    fix i assume "i < Suc n" "i < length (db[n := ?v])"
    with db(3) show "db[n := ?v] ! i = pitchFactor (fst st)
                 * 2 powr (lfoBuffer (snd st) ! i * 0.25
                            * smoothed gnv (smoothPitchModDepth (fst st)) i)"
      by (cases "i = n") (simp_all add: nth_list_update)
  qed
qed


lemma cutoff_fold_inst:
  "fst (fold (cutoff_step gnv) [0..<n] st)
     = (fst st)\<lparr>smoothCutoff := ((\<lambda>t. snd (gnv t)) ^^ n) (smoothCutoff (fst st)),
                smoothResonance := ((\<lambda>t. snd (gnv t)) ^^ n) (smoothResonance (fst st)),
                smoothVCFEnvModDepth :=
                  ((\<lambda>t. snd (gnv t)) ^^ n) (smoothVCFEnvModDepth (fst st)),
                smoothVCFLFOModDepth :=
                  ((\<lambda>t. snd (gnv t)) ^^ n) (smoothVCFLFOModDepth (fst st)),
                smoothVCFKeyboardModDepth :=
                  ((\<lambda>t. snd (gnv t)) ^^ n) (smoothVCFKeyboardModDepth (fst st)),
                smoothVCFBendDepth :=
                  ((\<lambda>t. snd (gnv t)) ^^ n) (smoothVCFBendDepth (fst st))\<rparr>"
  by (induction n) (simp_all add: cutoff_step_def Let_def)

lemma cutoff_fold_bufs:
  "\<exists>co rb eb lb kb bb.
     snd (fold (cutoff_step gnv) [0..<n] st)
       = (snd st)\<lparr>cutoffOctavesBuffer := co, resonanceBuffer := rb, vcfEnvModBuffer := eb,
                  vcfLFODetuneOctavesBuffer := lb, vcfKeyboardModBuffer := kb,
                  vcfBendDepthBuffer := bb\<rparr>
     \<and> length co = length (cutoffOctavesBuffer (snd st))
     \<and> length eb = length (vcfEnvModBuffer (snd st))
     \<and> length lb = length (vcfLFODetuneOctavesBuffer (snd st))
     \<and> length kb = length (vcfKeyboardModBuffer (snd st))
     \<and> length bb = length (vcfBendDepthBuffer (snd st))
     \<and> (\<forall>i<n. i < length co \<longrightarrow>
           co ! i = smoothed gnv (smoothCutoff (fst st)) i * (200 / 12)
                    + smoothed gnv (smoothResonance (fst st)) i * 0.5)
     \<and> (\<forall>i<n. i < length eb \<longrightarrow> eb ! i = smoothed gnv (smoothVCFEnvModDepth (fst st)) i)
     \<and> (\<forall>i<n. i < length lb \<longrightarrow>
           lb ! i = smoothed gnv (smoothVCFLFOModDepth (fst st)) i * (lfoBuffer (snd st) ! i) * 3)
     \<and> (\<forall>i<n. i < length kb \<longrightarrow> kb ! i = smoothed gnv (smoothVCFKeyboardModDepth (fst st)) i)
     \<and> (\<forall>i<n. i < length bb \<longrightarrow> bb ! i = smoothed gnv (smoothVCFBendDepth (fst st)) i)"
proof (induction n)
  case 0
  show ?case
    by (rule exI[of _ "cutoffOctavesBuffer (snd st)"], rule exI[of _ "resonanceBuffer (snd st)"],
        rule exI[of _ "vcfEnvModBuffer (snd st)"],
        rule exI[of _ "vcfLFODetuneOctavesBuffer (snd st)"],
        rule exI[of _ "vcfKeyboardModBuffer (snd st)"],
        rule exI[of _ "vcfBendDepthBuffer (snd st)"]) simp
next
  case (Suc n)
  then obtain co rb eb lb kb bb where
    b: "snd (fold (cutoff_step gnv) [0..<n] st)
       = (snd st)\<lparr>cutoffOctavesBuffer := co, resonanceBuffer := rb, vcfEnvModBuffer := eb,
                  vcfLFODetuneOctavesBuffer := lb, vcfKeyboardModBuffer := kb,
                  vcfBendDepthBuffer := bb\<rparr>"
    and l: "length co = length (cutoffOctavesBuffer (snd st))"
      "length eb = length (vcfEnvModBuffer (snd st))"
      "length lb = length (vcfLFODetuneOctavesBuffer (snd st))"
      "length kb = length (vcfKeyboardModBuffer (snd st))"
      "length bb = length (vcfBendDepthBuffer (snd st))"
    and c: "\<forall>i<n. i < length co \<longrightarrow>
           co ! i = smoothed gnv (smoothCutoff (fst st)) i * (200 / 12)
                    + smoothed gnv (smoothResonance (fst st)) i * 0.5"
    and e: "\<forall>i<n. i < length eb \<longrightarrow> eb ! i = smoothed gnv (smoothVCFEnvModDepth (fst st)) i"
    and f: "\<forall>i<n. i < length lb \<longrightarrow>
           lb ! i = smoothed gnv (smoothVCFLFOModDepth (fst st)) i * (lfoBuffer (snd st) ! i) * 3"
    and k: "\<forall>i<n. i < length kb \<longrightarrow> kb ! i = smoothed gnv (smoothVCFKeyboardModDepth (fst st)) i"
    and d: "\<forall>i<n. i < length bb \<longrightarrow> bb ! i = smoothed gnv (smoothVCFBendDepth (fst st)) i"
    by blast
  let ?C = "smoothed gnv (smoothCutoff (fst st)) n * (200 / 12)
                    + smoothed gnv (smoothResonance (fst st)) n * 0.5"
  let ?R = "smoothed gnv (smoothResonance (fst st)) n"
  let ?E = "smoothed gnv (smoothVCFEnvModDepth (fst st)) n"
  let ?L = "smoothed gnv (smoothVCFLFOModDepth (fst st)) n * (lfoBuffer (snd st) ! n) * 3"
  let ?K = "smoothed gnv (smoothVCFKeyboardModDepth (fst st)) n"
  let ?B = "smoothed gnv (smoothVCFBendDepth (fst st)) n"
  have step: "snd (fold (cutoff_step gnv) [0..<Suc n] st)
       = (snd st)\<lparr>cutoffOctavesBuffer := co[n := ?C], resonanceBuffer := rb[n := ?R],
                  vcfEnvModBuffer := eb[n := ?E],
                  vcfLFODetuneOctavesBuffer := lb[n := ?L], vcfKeyboardModBuffer := kb[n := ?K],
                  vcfBendDepthBuffer := bb[n := ?B]\<rparr>"
    by (simp add: cutoff_step_def Let_def b cutoff_fold_inst smoothed_Suc)
  have c': "\<forall>i<Suc n. i < length (co[n := ?C]) \<longrightarrow>
           co[n := ?C] ! i = smoothed gnv (smoothCutoff (fst st)) i * (200 / 12)
                    + smoothed gnv (smoothResonance (fst st)) i * 0.5"
    using c by (auto simp: nth_list_update less_Suc_eq)
  have e': "\<forall>i<Suc n. i < length (eb[n := ?E]) \<longrightarrow>
           eb[n := ?E] ! i = smoothed gnv (smoothVCFEnvModDepth (fst st)) i"
    using e by (auto simp: nth_list_update less_Suc_eq)
  have f': "\<forall>i<Suc n. i < length (lb[n := ?L]) \<longrightarrow>
           lb[n := ?L] ! i
             = smoothed gnv (smoothVCFLFOModDepth (fst st)) i * (lfoBuffer (snd st) ! i) * 3"
    using f by (auto simp: nth_list_update less_Suc_eq)
  have k': "\<forall>i<Suc n. i < length (kb[n := ?K]) \<longrightarrow>
           kb[n := ?K] ! i = smoothed gnv (smoothVCFKeyboardModDepth (fst st)) i"
    using k by (auto simp: nth_list_update less_Suc_eq)
  have d': "\<forall>i<Suc n. i < length (bb[n := ?B]) \<longrightarrow>
           bb[n := ?B] ! i = smoothed gnv (smoothVCFBendDepth (fst st)) i"
    using d by (auto simp: nth_list_update less_Suc_eq)
  have l': "length (co[n := ?C]) = length (cutoffOctavesBuffer (snd st))"
    "length (eb[n := ?E]) = length (vcfEnvModBuffer (snd st))"
    "length (lb[n := ?L]) = length (vcfLFODetuneOctavesBuffer (snd st))"
    "length (kb[n := ?K]) = length (vcfKeyboardModBuffer (snd st))"
    "length (bb[n := ?B]) = length (vcfBendDepthBuffer (snd st))"
    by (simp_all add: l)
  show ?case
    apply (rule exI[of _ "co[n := ?C]"], rule exI[of _ "rb[n := ?R]"],
        rule exI[of _ "eb[n := ?E]"], rule exI[of _ "lb[n := ?L]"],
        rule exI[of _ "kb[n := ?K]"], rule exI[of _ "bb[n := ?B]"])
    apply (intro conjI)
              apply (rule step)
             apply (rule l')+
        apply (rule c')
       apply (rule e')
      apply (rule f')
     apply (rule k')
    apply (rule d')
    done
qed


lemma render_block_buses_nth:
  assumes bs: "block_sized b" and i: "i < frames" "i < MAX_BLOCK_SIZE"
  shows "lfoBuffer (snd (render_block_buses gnv lfoOut frames (inst, b))) ! i = lfoOut ! i"
    and "detuneBuffer (snd (render_block_buses gnv lfoOut frames (inst, b))) ! i
      = pitchFactor inst
          * 2 powr (lfoOut ! i * 0.25 * smoothed gnv (smoothPitchModDepth inst) i)"
    and "cutoffOctavesBuffer (snd (render_block_buses gnv lfoOut frames (inst, b))) ! i
      = smoothed gnv (smoothCutoff inst) i * (200 / 12)
          + smoothed gnv (smoothResonance inst) i * 0.5"
    and "vcfEnvModBuffer (snd (render_block_buses gnv lfoOut frames (inst, b))) ! i
      = smoothed gnv (smoothVCFEnvModDepth inst) i"
    and "vcfLFODetuneOctavesBuffer (snd (render_block_buses gnv lfoOut frames (inst, b))) ! i
      = smoothed gnv (smoothVCFLFOModDepth inst) i * (lfoOut ! i) * 3"
    and "vcfKeyboardModBuffer (snd (render_block_buses gnv lfoOut frames (inst, b))) ! i
      = smoothed gnv (smoothVCFKeyboardModDepth inst) i"
    and "vcfBendDepthBuffer (snd (render_block_buses gnv lfoOut frames (inst, b))) ! i
      = smoothed gnv (smoothVCFBendDepth inst) i"
    and "pitchBendSemitones (fst (render_block_buses gnv lfoOut frames (inst, b)))
      = pitchBendSemitones inst"
    and "length (cutoffBuffer (snd (render_block_buses gnv lfoOut frames (inst, b))))
      = MAX_BLOCK_SIZE"
proof -
  let ?n = "if frames > MAX_BLOCK_SIZE then MAX_BLOCK_SIZE else frames"
  let ?b1 = "b\<lparr>lfoBuffer := fold (\<lambda>i l. l[i := lfoOut ! i]) [0..<?n] (lfoBuffer b)\<rparr>"
  let ?st1 = "fold (detune_step gnv) [0..<?n] (inst, ?b1)"
  let ?R = "render_block_buses gnv lfoOut frames (inst, b)"
  have R: "?R = fold (cutoff_step gnv) [0..<?n] ?st1"
    by (simp add: render_block_buses_def process_cutoff_def process_detune_def Let_def)
  from i have n: "i < ?n" "?n \<le> MAX_BLOCK_SIZE" by simp_all
  from bs have len: "length (lfoBuffer b) = MAX_BLOCK_SIZE"
    "length (detuneBuffer b) = MAX_BLOCK_SIZE"
    "length (cutoffOctavesBuffer b) = MAX_BLOCK_SIZE"
    "length (vcfEnvModBuffer b) = MAX_BLOCK_SIZE"
    "length (vcfLFODetuneOctavesBuffer b) = MAX_BLOCK_SIZE"
    "length (vcfKeyboardModBuffer b) = MAX_BLOCK_SIZE"
    "length (vcfBendDepthBuffer b) = MAX_BLOCK_SIZE"
    "length (cutoffBuffer b) = MAX_BLOCK_SIZE"
    by (simp_all add: block_sized_def)
  have lf: "lfoBuffer ?b1 ! i = lfoOut ! i"
    using fill_nth(1)[of ?n "lfoBuffer b" i "\<lambda>i. lfoOut ! i"] n len(1) by simp
  obtain db where db: "snd ?st1 = ?b1\<lparr>detuneBuffer := db\<rparr>"
    "length db = length (detuneBuffer ?b1)"
    "\<forall>j<?n. j < length db \<longrightarrow>
        db ! j = pitchFactor inst
                 * 2 powr (lfoBuffer ?b1 ! j * 0.25 * smoothed gnv (smoothPitchModDepth inst) j)"
    using detune_fold_bufs[of gnv ?n "(inst, ?b1)"] by auto
  have f1: "fst ?st1 = inst\<lparr>smoothPitchModDepth :=
                  ((\<lambda>t. snd (gnv t)) ^^ ?n) (smoothPitchModDepth inst)\<rparr>"
    using detune_fold_inst[of gnv ?n "(inst, ?b1)"] by simp
  obtain co rb eb lb kb bb where
    cb: "snd ?R = (snd ?st1)\<lparr>cutoffOctavesBuffer := co, resonanceBuffer := rb,
            vcfEnvModBuffer := eb, vcfLFODetuneOctavesBuffer := lb,
            vcfKeyboardModBuffer := kb, vcfBendDepthBuffer := bb\<rparr>"
    and cl: "length co = length (cutoffOctavesBuffer (snd ?st1))"
      "length eb = length (vcfEnvModBuffer (snd ?st1))"
      "length lb = length (vcfLFODetuneOctavesBuffer (snd ?st1))"
      "length kb = length (vcfKeyboardModBuffer (snd ?st1))"
      "length bb = length (vcfBendDepthBuffer (snd ?st1))"
    and cv: "\<forall>j<?n. j < length co \<longrightarrow>
           co ! j = smoothed gnv (smoothCutoff (fst ?st1)) j * (200 / 12)
                    + smoothed gnv (smoothResonance (fst ?st1)) j * 0.5"
      "\<forall>j<?n. j < length eb \<longrightarrow> eb ! j = smoothed gnv (smoothVCFEnvModDepth (fst ?st1)) j"
      "\<forall>j<?n. j < length lb \<longrightarrow>
           lb ! j = smoothed gnv (smoothVCFLFOModDepth (fst ?st1)) j
                      * (lfoBuffer (snd ?st1) ! j) * 3"
      "\<forall>j<?n. j < length kb \<longrightarrow>
           kb ! j = smoothed gnv (smoothVCFKeyboardModDepth (fst ?st1)) j"
      "\<forall>j<?n. j < length bb \<longrightarrow> bb ! j = smoothed gnv (smoothVCFBendDepth (fst ?st1)) j"
    unfolding R using cutoff_fold_bufs[of gnv ?n ?st1] by blast
  have f2: "fst ?R = (fst ?st1)
      \<lparr>smoothCutoff := ((\<lambda>t. snd (gnv t)) ^^ ?n) (smoothCutoff (fst ?st1)),
       smoothResonance := ((\<lambda>t. snd (gnv t)) ^^ ?n) (smoothResonance (fst ?st1)),
       smoothVCFEnvModDepth := ((\<lambda>t. snd (gnv t)) ^^ ?n) (smoothVCFEnvModDepth (fst ?st1)),
       smoothVCFLFOModDepth := ((\<lambda>t. snd (gnv t)) ^^ ?n) (smoothVCFLFOModDepth (fst ?st1)),
       smoothVCFKeyboardModDepth :=
         ((\<lambda>t. snd (gnv t)) ^^ ?n) (smoothVCFKeyboardModDepth (fst ?st1)),
       smoothVCFBendDepth := ((\<lambda>t. snd (gnv t)) ^^ ?n) (smoothVCFBendDepth (fst ?st1))\<rparr>"
    unfolding R by (rule cutoff_fold_inst)
  from n len have il: "i < MAX_BLOCK_SIZE" by simp
  show "lfoBuffer (snd ?R) ! i = lfoOut ! i"
    unfolding cb db(1) using lf by simp
  show "detuneBuffer (snd ?R) ! i
      = pitchFactor inst * 2 powr (lfoOut ! i * 0.25 * smoothed gnv (smoothPitchModDepth inst) i)"
    unfolding cb db(1) using db(2,3) n il len lf by simp
  show "cutoffOctavesBuffer (snd ?R) ! i
      = smoothed gnv (smoothCutoff inst) i * (200 / 12)
          + smoothed gnv (smoothResonance inst) i * 0.5"
    unfolding cb using cv(1) cl(1) n il len by (simp add: db(1) f1)
  show "vcfEnvModBuffer (snd ?R) ! i = smoothed gnv (smoothVCFEnvModDepth inst) i"
    unfolding cb using cv(2) cl(2) n il len by (simp add: db(1) f1)
  show "vcfLFODetuneOctavesBuffer (snd ?R) ! i
      = smoothed gnv (smoothVCFLFOModDepth inst) i * (lfoOut ! i) * 3"
    unfolding cb using cv(3) cl(3) n il len lf by (simp add: db(1) f1)
  show "vcfKeyboardModBuffer (snd ?R) ! i = smoothed gnv (smoothVCFKeyboardModDepth inst) i"
    unfolding cb using cv(4) cl(4) n il len by (simp add: db(1) f1)
  show "vcfBendDepthBuffer (snd ?R) ! i = smoothed gnv (smoothVCFBendDepth inst) i"
    unfolding cb using cv(5) cl(5) n il len by (simp add: db(1) f1)
  show "pitchBendSemitones (fst ?R) = pitchBendSemitones inst"
    unfolding f2 f1 by simp
  show "length (cutoffBuffer (snd ?R)) = MAX_BLOCK_SIZE"
    unfolding cb db(1) using len by simp
qed


lemma smoothed_settled: "smoothed settled s 0 = sm_target s"
  by (simp add: smoothed_def settled_def)

lemma block_sized_silent: "block_sized silent_buffers"
  by (simp add: block_sized_def silent_buffers_def)

subsection \<open>C8: the pitch-detune multiplier\<close>

text \<open>
  Claim C8. In a rendered block, for every sample index \<open>i\<close> below the frame count
  (cut to \<open>MAX_BLOCK_SIZE\<close>), the detune buffer holds
  \<open>pitch_range * 2 powr (lfo[i] * 0.25 * depth[i])\<close>: \<open>lfo[i]\<close> is the LFO buffer at
  \<open>i\<close>, which is the LFO's output for that sample, \<open>pitch_range\<close> the instance's
  pitch factor and \<open>depth[i]\<close> the value the pitch-mod-depth smoother yields at its
  \<open>i\<close>-th call in the block.
\<close>

theorem detune_multiplier:
  assumes "block_sized b" and "i < frames" and "i < MAX_BLOCK_SIZE"
  shows "detuneBuffer (snd (render_block_buses gnv lfoOut frames (inst, b))) ! i
      = pitchFactor inst
          * 2 powr (lfoBuffer (snd (render_block_buses gnv lfoOut frames (inst, b))) ! i
                      * 0.25 * smoothed gnv (smoothPitchModDepth inst) i)
    \<and> lfoBuffer (snd (render_block_buses gnv lfoOut frames (inst, b))) ! i = lfoOut ! i"
  using render_block_buses_nth(1,2)[OF assms, of gnv lfoOut inst] by simp

theorem detune_multiplier_witness:
  "block_sized silent_buffers \<and> (0::nat) < 128 \<and> 0 < MAX_BLOCK_SIZE
   \<and> detuneBuffer (snd (render_block_buses settled (replicate MAX_BLOCK_SIZE 1) 128
        (new_instance\<lparr>pitchFactor := 2, smoothPitchModDepth := new_smooth 1\<rparr>,
         silent_buffers))) ! 0
     = 2 * 2 powr (1 / 4)"
proof -
  let ?inst = "new_instance\<lparr>pitchFactor := 2, smoothPitchModDepth := new_smooth 1\<rparr>"
  let ?R = "render_block_buses settled (replicate MAX_BLOCK_SIZE 1) 128 (?inst, silent_buffers)"
  have a: "(0::nat) < 128" and b: "0 < MAX_BLOCK_SIZE"
    by (simp_all add: MAX_BLOCK_SIZE_def)
  note w = detune_multiplier[OF block_sized_silent a b, of settled "replicate MAX_BLOCK_SIZE 1" ?inst]
  from w have l: "lfoBuffer (snd ?R) ! 0 = 1"
    using b by simp
  from w have "detuneBuffer (snd ?R) ! 0
      = pitchFactor ?inst
          * 2 powr (lfoBuffer (snd ?R) ! 0 * 0.25 * smoothed settled (smoothPitchModDepth ?inst) 0)"
    by (rule conjunct1)
  then have "detuneBuffer (snd ?R) ! 0 = 2 * 2 powr (1 / 4)"
    unfolding l by (simp add: smoothed_settled new_smooth_def)
  with block_sized_silent a b show ?thesis by blast
qed

subsection \<open>C3: the filter cutoff of a voice\<close>

lemma voice_cutoff_fold:
  "\<exists>cb. fold (voice_cutoff_step inst voice) [0..<n] b = b\<lparr>cutoffBuffer := cb\<rparr>
     \<and> length cb = length (cutoffBuffer b)
     \<and> (\<forall>i<n. i < length cb \<longrightarrow>
           cb ! i = 7.8 * 2 powr (cutoffOctavesBuffer b ! i
                      + vcfEnvModBuffer b ! i * (envelopeBuffer b ! i) * 12
                      + vcfLFODetuneOctavesBuffer b ! i * (ampEnvelopeIn voice b ! i)
                      + vcfKeyboardModBuffer b ! i
                          * (real_of_int (note_num voice - 60) * (1 / 12))
                      + vcfBendDepthBuffer b ! i
                          * (pitchBendSemitones inst * (48 / (12 * 7)))))"
proof (induction n)
  case 0
  show ?case by (rule exI[of _ "cutoffBuffer b"]) simp
next
  case (Suc n)
  let ?f = "\<lambda>i. 7.8 * 2 powr (cutoffOctavesBuffer b ! i
                      + vcfEnvModBuffer b ! i * (envelopeBuffer b ! i) * 12
                      + vcfLFODetuneOctavesBuffer b ! i * (ampEnvelopeIn voice b ! i)
                      + vcfKeyboardModBuffer b ! i
                          * (real_of_int (note_num voice - 60) * (1 / 12))
                      + vcfBendDepthBuffer b ! i
                          * (pitchBendSemitones inst * (48 / (12 * 7))))"
  from Suc obtain cb where cb: "fold (voice_cutoff_step inst voice) [0..<n] b = b\<lparr>cutoffBuffer := cb\<rparr>"
    "length cb = length (cutoffBuffer b)" "\<forall>i<n. i < length cb \<longrightarrow> cb ! i = ?f i"
    by blast
  have amp: "ampEnvelopeIn voice (b\<lparr>cutoffBuffer := cb\<rparr>) = ampEnvelopeIn voice b"
    by (simp add: ampEnvelopeIn_def)
  have s: "fold (voice_cutoff_step inst voice) [0..<Suc n] b = b\<lparr>cutoffBuffer := cb[n := ?f n]\<rparr>"
    by (simp add: cb(1) voice_cutoff_step_def Let_def amp)
  have v: "\<forall>i<Suc n. i < length (cb[n := ?f n]) \<longrightarrow> cb[n := ?f n] ! i = ?f i"
    using cb(3) by (auto simp: nth_list_update less_Suc_eq)
  have l: "length (cb[n := ?f n]) = length (cutoffBuffer b)" by (simp add: cb(2))
  show ?case
    apply (rule exI[of _ "cb[n := ?f n]"])
    apply (intro conjI)
      apply (rule s)
     apply (rule l)
    apply (rule v)
    done
qed

text \<open>The value handed to the filter, in terms of the smoothed parameters.\<close>

lemma vcf_cutoff_input_nth:
  assumes bs: "block_sized b" and i: "i < frames" "i < MAX_BLOCK_SIZE"
  shows "vcf_cutoff_input (fst (render_block_buses gnv lfoOut frames (inst, b))) voice
           (min frames MAX_BLOCK_SIZE)
           ((snd (render_block_buses gnv lfoOut frames (inst, b)))
              \<lparr>envelopeBuffer := env, gateBuffer := gate\<rparr>) ! i
     = 7.8 * 2 powr
         (smoothed gnv (smoothCutoff inst) i * (200 / 12)
            + smoothed gnv (smoothResonance inst) i * 0.5
          + smoothed gnv (smoothVCFEnvModDepth inst) i * (env ! i) * 12
          + smoothed gnv (smoothVCFLFOModDepth inst) i * (lfoOut ! i) * 3
              * ((if v_vcaType voice = kHeraVCATypeEnvelope then env else gate) ! i)
          + smoothed gnv (smoothVCFKeyboardModDepth inst) i
              * (real_of_int (note_num voice - 60) * (1 / 12))
          + smoothed gnv (smoothVCFBendDepth inst) i
              * (pitchBendSemitones inst * (48 / (12 * 7))))"
proof -
  let ?R = "render_block_buses gnv lfoOut frames (inst, b)"
  let ?b2 = "(snd ?R)\<lparr>envelopeBuffer := env, gateBuffer := gate\<rparr>"
  let ?n = "min frames MAX_BLOCK_SIZE"
  note r = render_block_buses_nth[OF bs i, of gnv lfoOut inst]
  from i have n: "i < ?n" by simp
  obtain cb where cb:
    "fold (voice_cutoff_step (fst ?R) voice) [0..<?n] ?b2 = ?b2\<lparr>cutoffBuffer := cb\<rparr>"
    "length cb = length (cutoffBuffer ?b2)"
    "\<forall>j<?n. j < length cb \<longrightarrow>
           cb ! j = 7.8 * 2 powr (cutoffOctavesBuffer ?b2 ! j
                      + vcfEnvModBuffer ?b2 ! j * (envelopeBuffer ?b2 ! j) * 12
                      + vcfLFODetuneOctavesBuffer ?b2 ! j * (ampEnvelopeIn voice ?b2 ! j)
                      + vcfKeyboardModBuffer ?b2 ! j
                          * (real_of_int (note_num voice - 60) * (1 / 12))
                      + vcfBendDepthBuffer ?b2 ! j
                          * (pitchBendSemitones (fst ?R) * (48 / (12 * 7))))"
    using voice_cutoff_fold[of "fst ?R" voice ?n ?b2] by blast
  have len: "i < length cb" using cb(2) r(9) i by simp
  have "vcf_cutoff_input (fst ?R) voice ?n ?b2 ! i = cb ! i"
    using n by (simp add: vcf_cutoff_input_def render_voice_cutoff_def cb(1))
  also from cb(3) n len have "cb ! i = 7.8 * 2 powr (cutoffOctavesBuffer ?b2 ! i
                      + vcfEnvModBuffer ?b2 ! i * (envelopeBuffer ?b2 ! i) * 12
                      + vcfLFODetuneOctavesBuffer ?b2 ! i * (ampEnvelopeIn voice ?b2 ! i)
                      + vcfKeyboardModBuffer ?b2 ! i
                          * (real_of_int (note_num voice - 60) * (1 / 12))
                      + vcfBendDepthBuffer ?b2 ! i
                          * (pitchBendSemitones (fst ?R) * (48 / (12 * 7))))"
    by blast
  also have "\<dots> = 7.8 * 2 powr
         (smoothed gnv (smoothCutoff inst) i * (200 / 12)
            + smoothed gnv (smoothResonance inst) i * 0.5
          + smoothed gnv (smoothVCFEnvModDepth inst) i * (env ! i) * 12
          + smoothed gnv (smoothVCFLFOModDepth inst) i * (lfoOut ! i) * 3
              * ((if v_vcaType voice = kHeraVCATypeEnvelope then env else gate) ! i)
          + smoothed gnv (smoothVCFKeyboardModDepth inst) i
              * (real_of_int (note_num voice - 60) * (1 / 12))
          + smoothed gnv (smoothVCFBendDepth inst) i
              * (pitchBendSemitones inst * (48 / (12 * 7))))"
    by (simp add: r ampEnvelopeIn_def)
  finally show ?thesis .
qed

lemma cutoff_lfo_settings:
  assumes "0 \<le> x" "x \<le> 1" "0 \<le> y" "y \<le> 1"
  shows "v2_set_param (v2_set_param (v2_create_instance []) ''vcf_cutoff'' (number_text x))
           ''vcf_lfo'' (number_text y)
     = apply_param (apply_param (v2_create_instance []) kHeraParamVCFCutoff x)
         kHeraParamVCFLFOModDepth y"
  using assms
  by (simp add: v2_set_param_def set_named_param_def g_shadow_params_def pdef_def
      clamp_param_def number_text_def Let_def)

lemma cutoff_lfo_smoothers:
  assumes "0 \<le> x" "x \<le> 1" "0 \<le> y" "y \<le> 1"
  shows "sm_target (smoothCutoff (v2_set_param (v2_set_param (v2_create_instance [])
            ''vcf_cutoff'' (number_text x)) ''vcf_lfo'' (number_text y))) = x"
    and "sm_target (smoothResonance (v2_set_param (v2_set_param (v2_create_instance [])
            ''vcf_cutoff'' (number_text x)) ''vcf_lfo'' (number_text y))) = 0"
    and "sm_target (smoothVCFEnvModDepth (v2_set_param (v2_set_param (v2_create_instance [])
            ''vcf_cutoff'' (number_text x)) ''vcf_lfo'' (number_text y))) = 0"
    and "sm_target (smoothVCFLFOModDepth (v2_set_param (v2_set_param (v2_create_instance [])
            ''vcf_cutoff'' (number_text x)) ''vcf_lfo'' (number_text y))) = y"
    and "sm_target (smoothVCFKeyboardModDepth (v2_set_param (v2_set_param
            (v2_create_instance []) ''vcf_cutoff'' (number_text x)) ''vcf_lfo''
            (number_text y))) = 0"
    and "sm_target (smoothVCFBendDepth (v2_set_param (v2_set_param (v2_create_instance [])
            ''vcf_cutoff'' (number_text x)) ''vcf_lfo'' (number_text y))) = 0"
    and "pitchBendSemitones (v2_set_param (v2_set_param (v2_create_instance [])
            ''vcf_cutoff'' (number_text x)) ''vcf_lfo'' (number_text y)) = 0"
  unfolding cutoff_lfo_settings[OF assms]
  by (simp_all add: apply_param_def create_empty new_instance_def new_smooth_def
      setTargetValue_def)


lemma settled_block_cutoff:
  assumes "0 \<le> x" "x \<le> 1" "0 \<le> y" "y \<le> 1"
  shows "vcf_cutoff_input
           (fst (settled_block l (v2_set_param (v2_set_param (v2_create_instance [])
                   ''vcf_cutoff'' (number_text x)) ''vcf_lfo'' (number_text y))))
           (held_voice 60) (min 128 MAX_BLOCK_SIZE)
           ((snd (settled_block l (v2_set_param (v2_set_param (v2_create_instance [])
                   ''vcf_cutoff'' (number_text x)) ''vcf_lfo'' (number_text y))))
              \<lparr>envelopeBuffer := full_envelope, gateBuffer := full_envelope\<rparr>) ! 0
     = 7.8 * 2 powr (x * (200 / 12) + y * l * 3)"
proof -
  have a: "(0::nat) < 128" and b: "0 < MAX_BLOCK_SIZE"
    by (simp_all add: MAX_BLOCK_SIZE_def)
  note w = vcf_cutoff_input_nth[OF block_sized_silent a b, of settled
      "replicate MAX_BLOCK_SIZE l" _ "held_voice 60" full_envelope full_envelope]
  show ?thesis
    unfolding settled_block_def w
    by (simp add: smoothed_settled cutoff_lfo_smoothers[OF assms] full_envelope_def
        MAX_BLOCK_SIZE_def held_voice_def)
qed

text \<open>
  Claim C3, as stated, fails in two ways. With the LFO depth at 1, the LFO output at 0
  and the envelope at 1, the code feeds \<open>7.8\<close> Hz to the filter, where the stated sum
  (\<open>lfo_depth * amplitude_envelope_value\<close> = 1 octave) gives \<open>15.6\<close> Hz: in the code
  the LFO term is the depth times the LFO sample times 3 times the amplitude
  envelope. And with the cutoff slider at 0.96 the value fed to the filter is
  \<open>7.8 * 2^16\<close> Hz, far above half the sample rate: \<open>render_voice\<close> hands the buffer to
  the filter as computed, with no clamp.
\<close>

theorem filter_cutoff_counterexample:
  "vcf_cutoff_input (fst (settled_block 0 lfo_mod_instance)) (held_voice 60)
       (min 128 MAX_BLOCK_SIZE)
       ((snd (settled_block 0 lfo_mod_instance))
          \<lparr>envelopeBuffer := full_envelope, gateBuffer := full_envelope\<rparr>) ! 0
     = 7.8
   \<and> 7.8 * 2 powr
         spec_cutoff_octaves
           (cutoffOctavesBuffer (snd (settled_block 0 lfo_mod_instance)) ! 0)
           (smoothed settled (smoothVCFEnvModDepth lfo_mod_instance) 0)
           (full_envelope ! 0)
           (smoothed settled (smoothVCFLFOModDepth lfo_mod_instance) 0)
           (full_envelope ! 0)
           (smoothed settled (smoothVCFKeyboardModDepth lfo_mod_instance) 0)
           (note_num (held_voice 60))
           (smoothed settled (smoothVCFBendDepth lfo_mod_instance) 0)
           (pitchBendSemitones lfo_mod_instance)
     = 15.6
   \<and> vcf_cutoff_input (fst (settled_block 0 bright_instance)) (held_voice 60)
       (min 128 MAX_BLOCK_SIZE)
       ((snd (settled_block 0 bright_instance))
          \<lparr>envelopeBuffer := full_envelope, gateBuffer := full_envelope\<rparr>) ! 0
     = 511180.8
   \<and> MOVE_SAMPLE_RATE / 2 < 511180.8"
proof -
  have a: "(0::nat) < 128" and b: "0 < MAX_BLOCK_SIZE"
    by (simp_all add: MAX_BLOCK_SIZE_def)
  have c1: "vcf_cutoff_input (fst (settled_block 0 lfo_mod_instance)) (held_voice 60)
       (min 128 MAX_BLOCK_SIZE)
       ((snd (settled_block 0 lfo_mod_instance))
          \<lparr>envelopeBuffer := full_envelope, gateBuffer := full_envelope\<rparr>) ! 0 = 7.8"
    unfolding lfo_mod_instance_def by (subst settled_block_cutoff) simp_all
  have o: "cutoffOctavesBuffer (snd (settled_block 0 lfo_mod_instance)) ! 0 = 0"
    unfolding settled_block_def lfo_mod_instance_def
    by (simp add: render_block_buses_nth(3)[OF block_sized_silent a b] smoothed_settled
        cutoff_lfo_smoothers)
  have c2: "7.8 * 2 powr
         spec_cutoff_octaves
           (cutoffOctavesBuffer (snd (settled_block 0 lfo_mod_instance)) ! 0)
           (smoothed settled (smoothVCFEnvModDepth lfo_mod_instance) 0)
           (full_envelope ! 0)
           (smoothed settled (smoothVCFLFOModDepth lfo_mod_instance) 0)
           (full_envelope ! 0)
           (smoothed settled (smoothVCFKeyboardModDepth lfo_mod_instance) 0)
           (note_num (held_voice 60))
           (smoothed settled (smoothVCFBendDepth lfo_mod_instance) 0)
           (pitchBendSemitones lfo_mod_instance)
     = 15.6"
    unfolding o unfolding lfo_mod_instance_def
    by (simp add: spec_cutoff_octaves_def smoothed_settled cutoff_lfo_smoothers
        full_envelope_def MAX_BLOCK_SIZE_def held_voice_def)
  have c3: "vcf_cutoff_input (fst (settled_block 0 bright_instance)) (held_voice 60)
       (min 128 MAX_BLOCK_SIZE)
       ((snd (settled_block 0 bright_instance))
          \<lparr>envelopeBuffer := full_envelope, gateBuffer := full_envelope\<rparr>) ! 0
     = 511180.8"
    unfolding bright_instance_def by (subst settled_block_cutoff) simp_all
  have c4: "MOVE_SAMPLE_RATE / 2 < 511180.8"
    by (simp add: MOVE_SAMPLE_RATE_def)
  from c1 c2 c3 c4 show ?thesis by blast
qed

text \<open>
  Claim C3, amended. For every voice and every sample \<open>i\<close> of a rendered block, the
  cutoff handed to the resonant filter is \<open>7.8\<close> Hz times 2 to the power of the sum of:
  the base contribution \<open>cutoff * 200 / 12 + resonance * 0.5\<close>;
  \<open>envelope_depth * envelope_value * 12\<close>;
  \<open>lfo_depth * lfo_value * 3 * amplitude_envelope_value\<close>;
  \<open>key_track_depth * (note - 60) / 12\<close>; and
  \<open>bend_depth * bend_semitones * (48 / 84)\<close>, where cutoff, resonance and the
  depths are the smoothed parameter values at sample \<open>i\<close>, the envelope value is the
  voice's normal envelope and the amplitude envelope its governing envelope. The
  engine hands this value to the filter as computed.
\<close>

theorem filter_cutoff_formula:
  assumes "block_sized b" and "i < frames" and "i < MAX_BLOCK_SIZE"
  shows "vcf_cutoff_input (fst (render_block_buses gnv lfoOut frames (inst, b))) voice
           (min frames MAX_BLOCK_SIZE)
           ((snd (render_block_buses gnv lfoOut frames (inst, b)))
              \<lparr>envelopeBuffer := env, gateBuffer := gate\<rparr>) ! i
     = 7.8 * 2 powr
         ((smoothed gnv (smoothCutoff inst) i * (200 / 12)
            + smoothed gnv (smoothResonance inst) i * 0.5)
          + smoothed gnv (smoothVCFEnvModDepth inst) i * (env ! i) * 12
          + smoothed gnv (smoothVCFLFOModDepth inst) i * (lfoOut ! i) * 3
              * (ampEnvelopeIn voice
                   ((snd (render_block_buses gnv lfoOut frames (inst, b)))
                      \<lparr>envelopeBuffer := env, gateBuffer := gate\<rparr>) ! i)
          + smoothed gnv (smoothVCFKeyboardModDepth inst) i
              * (real_of_int (note_num voice - 60) / 12)
          + smoothed gnv (smoothVCFBendDepth inst) i
              * pitchBendSemitones inst * (48 / 84))"
  unfolding vcf_cutoff_input_nth[OF assms]
  by (simp add: ampEnvelopeIn_def mult.assoc)

theorem filter_cutoff_formula_witness:
  "block_sized silent_buffers \<and> (0::nat) < 128 \<and> 0 < MAX_BLOCK_SIZE
   \<and> vcf_cutoff_input
       (fst (render_block_buses settled (replicate MAX_BLOCK_SIZE (1 / 3)) 128
              (lfo_mod_instance, silent_buffers)))
       (held_voice 72) (min 128 MAX_BLOCK_SIZE)
       ((snd (render_block_buses settled (replicate MAX_BLOCK_SIZE (1 / 3)) 128
               (lfo_mod_instance, silent_buffers)))
          \<lparr>envelopeBuffer := full_envelope, gateBuffer := full_envelope\<rparr>) ! 0
     = 15.6"
proof -
  have a: "(0::nat) < 128" and b: "0 < MAX_BLOCK_SIZE"
    by (simp_all add: MAX_BLOCK_SIZE_def)
  note w = filter_cutoff_formula[OF block_sized_silent a b, of settled
      "replicate MAX_BLOCK_SIZE (1 / 3)" lfo_mod_instance "held_voice 72"
      full_envelope full_envelope]
  have "vcf_cutoff_input
       (fst (render_block_buses settled (replicate MAX_BLOCK_SIZE (1 / 3)) 128
              (lfo_mod_instance, silent_buffers)))
       (held_voice 72) (min 128 MAX_BLOCK_SIZE)
       ((snd (render_block_buses settled (replicate MAX_BLOCK_SIZE (1 / 3)) 128
               (lfo_mod_instance, silent_buffers)))
          \<lparr>envelopeBuffer := full_envelope, gateBuffer := full_envelope\<rparr>) ! 0
     = 15.6"
    unfolding w unfolding lfo_mod_instance_def
    by (simp add: smoothed_settled cutoff_lfo_smoothers ampEnvelopeIn_def full_envelope_def
        MAX_BLOCK_SIZE_def held_voice_def)
  with block_sized_silent a b show ?thesis by blast
qed

end
